theory Spec2Isabelle
  imports Complex_Main "HOL-Library.AList"
begin

text \<open>
  A shallow embedding of \<^verbatim>\<open>src/core/mcp/mcpCoordinator.ts\<close>: the OpenAI message adapter
  (\<^verbatim>\<open>extractReasoningContent\<close>, \<^verbatim>\<open>OpenAIMessageAdapter\<close>) and the
  \<^verbatim>\<open>McpCoordinator\<close> class. Typed TypeScript values are datatypes and records;
  values the code only inspects dynamically (\<^verbatim>\<open>unknown\<close>,
  \<^verbatim>\<open>Record<string, unknown>\<close>) are values of the type \<open>json\<close>; an exception is
  the \<open>Inl\<close> of a sum; the asynchronous coordinator is a state machine over its two
  fields and the promises it hands out.
\<close>

section \<open>JavaScript values\<close>

text \<open>
  A dynamically typed value. An object is its list of own properties in insertion order
  (keys are distinct in JavaScript; \<open>map_of\<close> reads the first). Numbers are never
  inspected by the code modelled here. \<open>JUndefined\<close> is \<^verbatim>\<open>undefined\<close>: what
  reading a missing property gives, and what an optional field that was not set holds.
\<close>

datatype json =
    JUndefined
  | JNull
  | JBool bool
  | JNum real
  | JStr string
  | JArr "json list"
  | JObj "(string \<times> json) list"

text \<open>\<^verbatim>\<open>typeof v === 'object' && v !== null\<close>: objects and arrays.\<close>

fun is_object :: "json \<Rightarrow> bool" where
  "is_object (JObj kvs) = True"
| "is_object (JArr xs) = True"
| "is_object v = False"

text \<open>
  \<^verbatim>\<open>k in v\<close> and \<^verbatim>\<open>v.k\<close> for the property names the code uses (none is an
  array index or \<^verbatim>\<open>length\<close>, so an array has none of them).
\<close>

fun js_in :: "string \<Rightarrow> json \<Rightarrow> bool" where
  "js_in k (JObj kvs) = (map_of kvs k \<noteq> None)"
| "js_in k v = False"

fun js_get :: "json \<Rightarrow> string \<Rightarrow> json" where
  "js_get (JObj kvs) k = (case map_of kvs k of Some v \<Rightarrow> v | None \<Rightarrow> JUndefined)"
| "js_get v k = JUndefined"

text \<open>\<^verbatim>\<open>typeof v === 'string'\<close>, with the string.\<close>

fun string_of :: "json \<Rightarrow> string option" where
  "string_of (JStr s) = Some s"
| "string_of v = None"

text \<open>\<^verbatim>\<open>parts.join(sep)\<close>.\<close>

fun join :: "string \<Rightarrow> string list \<Rightarrow> string" where
  "join sep [] = []"
| "join sep [x] = x"
| "join sep (x # y # ys) = x @ sep @ join sep (y # ys)"

section \<open>Reasoning extraction\<close>

text \<open>
  The callback of \<^verbatim>\<open>details.map\<close> in \<^verbatim>\<open>extractReasoningContent\<close> (lines 176-192);
  \<open>None\<close> is its \<^verbatim>\<open>null\<close>.
\<close>

definition detail_part :: "json \<Rightarrow> string option" where
  "detail_part detail =
     (if is_object detail then
        (if js_get detail ''type'' = JStr ''reasoning.text''
            \<and> string_of (js_get detail ''text'') \<noteq> None
         then string_of (js_get detail ''text'')
         else if js_get detail ''type'' = JStr ''reasoning.summary''
            \<and> string_of (js_get detail ''summary'') \<noteq> None
         then string_of (js_get detail ''summary'')
         else None)
      else None)"

text \<open>
  \<^verbatim>\<open>.filter((part) => Boolean(part))\<close>: \<^verbatim>\<open>null\<close> and the empty string are
  falsy and dropped.
\<close>

fun truthy_parts :: "string option list \<Rightarrow> string list" where
  "truthy_parts [] = []"
| "truthy_parts (None # ps) = truthy_parts ps"
| "truthy_parts (Some s # ps) = (if s = [] then truthy_parts ps else s # truthy_parts ps)"

text \<open>\<^verbatim>\<open>extractReasoningContent\<close> (lines 149-200); \<open>None\<close> is \<^verbatim>\<open>undefined\<close>.\<close>

definition extractReasoningContent :: "json \<Rightarrow> string option" where
  "extractReasoningContent source =
     (if is_object source \<and> js_in ''reasoning_content'' source
         \<and> string_of (js_get source ''reasoning_content'') \<noteq> None
      then string_of (js_get source ''reasoning_content'')
      else if is_object source \<and> js_in ''reasoning'' source
         \<and> string_of (js_get source ''reasoning'') \<noteq> None
      then string_of (js_get source ''reasoning'')
      else if is_object source \<and> js_in ''reasoning_details'' source then
        (case js_get source ''reasoning_details'' of
           JArr details \<Rightarrow>
             (let parts = truthy_parts (map detail_part details)
              in if length parts > 0 then Some (join [CHR 0x0A] parts) else None)
         | _ \<Rightarrow> None)
      else None)"


section \<open>Canonical request and wire messages\<close>

text \<open>
  \<open>Error\<close> is \<^verbatim>\<open>throw new Error(message)\<close>; \<open>TypeError\<close> is the exception of
  reading a property of \<^verbatim>\<open>null\<close> or \<^verbatim>\<open>undefined\<close> (its message depends on the
  engine). The request types \<^verbatim>\<open>RequestMessage\<close> and
  \<^verbatim>\<open>LLMRequest\<close> are imported by the source from \<^verbatim>\<open>types/llm/request\<close>; they are
  modelled by the fields the adapter reads. A tool call's \<^verbatim>\<open>arguments\<close> and an assistant
  message's \<^verbatim>\<open>tool_calls\<close> are optional: \<open>None\<close> is \<^verbatim>\<open>undefined\<close> or
  \<^verbatim>\<open>null\<close>, which \<^verbatim>\<open>??\<close> and \<^verbatim>\<open>?.\<close> treat alike. A tool message
  carries its \<^verbatim>\<open>tool_call\<close>, of which only the \<^verbatim>\<open>id\<close> is read.
\<close>

datatype error = Error string | TypeError

datatype ContentPart =
    TextPart string
  | ImageUrlPart json

datatype MessageContent =
    ContentString string
  | ContentArray "ContentPart list"

record ToolCallRequest =
  tc_id :: string
  tc_name :: string
  tc_arguments :: "string option"

datatype RequestMessage =
    UserMessage MessageContent
  | AssistantMessage MessageContent "ToolCallRequest list option"
  | SystemMessage MessageContent
  | ToolMessage string ToolCallRequest

datatype ChatCompletionContentPart =
    WireTextPart string
  | WireImageUrlPart json

datatype WireContent =
    WireString string
  | WireArray "ChatCompletionContentPart list"

record ChatCompletionFunction =
  fn_arguments :: string
  fn_name :: string

record ChatCompletionMessageToolCall =
  wtc_id :: string
  wtc_function :: ChatCompletionFunction
  wtc_type :: string

text \<open>
  A property of a wire message that the code sets, leaves \<^verbatim>\<open>undefined\<close> or deletes:
  \<open>Absent\<close> after \<^verbatim>\<open>delete\<close>, \<open>Undefined\<close> for a key holding
  \<^verbatim>\<open>undefined\<close>.
\<close>

datatype 'a property = Absent | Undefined | Defined 'a

datatype ChatCompletionMessageParam =
    UserParam WireContent
  | AssistantParam string "ChatCompletionMessageToolCall list property"
  | SystemParam string
  | ToolParam string string

text \<open>
  Every optional field of the request is a \<open>json\<close>, \<open>JUndefined\<close> when it is not set.
  \<^verbatim>\<open>hasObjectProperty(request, k) && request.k && typeof request.k === 'object'\<close> is then
  \<open>is_object\<close> of the field.
\<close>

record LLMRequest =
  messages :: "RequestMessage list"
  model :: string
  tools :: json
  tool_choice :: json
  reasoning_effort :: json
  web_search_options :: json
  max_tokens :: json
  temperature :: json
  top_p :: json
  frequency_penalty :: json
  presence_penalty :: json
  logit_bias :: json
  prediction :: json
  thinking :: json
  thinking_config :: json
  thinkingConfig :: json
  reasoning :: json
  extra_body :: json

text \<open>
  The parameter object built for the SDK: its \<^verbatim>\<open>messages\<close> (typed), and every other
  own property in insertion order, as the code handles them through
  \<^verbatim>\<open>Record<string, unknown>\<close> (assignment is \<open>AList.update\<close>, \<^verbatim>\<open>delete\<close> is
  \<open>AList.delete\<close>).
\<close>

record ChatCompletionCreateParams =
  wire_messages :: "ChatCompletionMessageParam list"
  props :: "(string \<times> json) list"

section \<open>Request translation\<close>

fun parseContentPart :: "ContentPart \<Rightarrow> ChatCompletionContentPart" where
  "parseContentPart (TextPart t) = WireTextPart t"
| "parseContentPart (ImageUrlPart u) = WireImageUrlPart u"

text \<open>
  The callback of \<^verbatim>\<open>message.tool_calls?.map\<close> (lines 440-447), then
  \<^verbatim>\<open>parseRequestMessage\<close> (lines 416-470).
\<close>

definition parseToolCall :: "ToolCallRequest \<Rightarrow> ChatCompletionMessageToolCall" where
  "parseToolCall toolCall =
     \<lparr> wtc_id = tc_id toolCall,
       wtc_function =
         \<lparr> fn_arguments = (case tc_arguments toolCall of None \<Rightarrow> ''{}'' | Some a \<Rightarrow> a),
           fn_name = tc_name toolCall \<rparr>,
       wtc_type = ''function'' \<rparr>"

fun parseRequestMessage :: "RequestMessage \<Rightarrow> error + ChatCompletionMessageParam" where
  "parseRequestMessage (UserMessage (ContentArray parts)) =
     Inr (UserParam (WireArray (map parseContentPart parts)))"
| "parseRequestMessage (UserMessage (ContentString s)) = Inr (UserParam (WireString s))"
| "parseRequestMessage (AssistantMessage (ContentArray parts) tcs) =
     Inl (Error ''Assistant message should be a string'')"
| "parseRequestMessage (AssistantMessage (ContentString s) tcs) =
     Inr (AssistantParam s
       (case tcs of None \<Rightarrow> Undefined | Some cs \<Rightarrow> Defined (map parseToolCall cs)))"
| "parseRequestMessage (SystemMessage (ContentArray parts)) =
     Inl (Error ''System message should be a string'')"
| "parseRequestMessage (SystemMessage (ContentString s)) = Inr (SystemParam s)"
| "parseRequestMessage (ToolMessage c tool_call) = Inr (ToolParam c (tc_id tool_call))"

text \<open>\<^verbatim>\<open>xs.map(f)\<close> for a callback that may throw: the first exception ends the map.\<close>

fun map_throwing :: "('a \<Rightarrow> error + 'b) \<Rightarrow> 'a list \<Rightarrow> error + 'b list" where
  "map_throwing f [] = Inr []"
| "map_throwing f (x # xs) =
     (case f x of
        Inl e \<Rightarrow> Inl e
      | Inr y \<Rightarrow> (case map_throwing f xs of Inl e \<Rightarrow> Inl e | Inr ys \<Rightarrow> Inr (y # ys)))"

text \<open>
  The repair of lines 267-286: \<open>tool_call_ids\<close> is the \<^verbatim>\<open>toolIds\<close> set (its elements),
  \<open>filter_tool_calls\<close> the body of the loop over \<^verbatim>\<open>parsedMessages\<close>. Nothing in the
  \<^verbatim>\<open>try\<close> block throws on messages of these types, so its \<^verbatim>\<open>catch\<close> has no branch
  here; the rest of the block only logs.
\<close>

fun tool_call_ids :: "ChatCompletionMessageParam list \<Rightarrow> string list" where
  "tool_call_ids [] = []"
| "tool_call_ids (ToolParam c i # ms) = i # tool_call_ids ms"
| "tool_call_ids (m # ms) = tool_call_ids ms"

fun filter_tool_calls :: "string list \<Rightarrow> ChatCompletionMessageParam \<Rightarrow> ChatCompletionMessageParam" where
  "filter_tool_calls toolIds (AssistantParam c (Defined tool_calls)) =
     (let filtered = filter (\<lambda>tc. wtc_id tc \<in> set toolIds) tool_calls
      in if length filtered > 0 then AssistantParam c (Defined filtered)
         else AssistantParam c Absent)"
| "filter_tool_calls toolIds pm = pm"

definition repair_tool_calls :: "ChatCompletionMessageParam list \<Rightarrow> ChatCompletionMessageParam list" where
  "repair_tool_calls parsedMessages =
     (let toolIds = tool_call_ids parsedMessages
      in map (filter_tool_calls toolIds) parsedMessages)"

text \<open>
  The own enumerable properties of a value, as the rest pattern
  \<^verbatim>\<open>const { tools, ...otherExtraBody } = request.extra_body\<close> copies them: an array's are
  its indices, written in decimal.
\<close>

fun digit_string :: "nat \<Rightarrow> string" where
  "digit_string n =
     (if n < 10 then [char_of (48 + n)]
      else digit_string (n div 10) @ [char_of (48 + n mod 10)])"

fun index_props :: "nat \<Rightarrow> json list \<Rightarrow> (string \<times> json) list" where
  "index_props i [] = []"
| "index_props i (x # xs) = (digit_string i, x) # index_props (Suc i) xs"

fun own_props :: "json \<Rightarrow> (string \<times> json) list" where
  "own_props (JObj kvs) = kvs"
| "own_props (JArr xs) = index_props 0 xs"
| "own_props v = []"

text \<open>\<^verbatim>\<open>Array.isArray(v)\<close>.\<close>

fun is_array :: "json \<Rightarrow> bool" where
  "is_array (JArr xs) = True"
| "is_array v = False"

text \<open>\<^verbatim>\<open>attachVendorExtensions\<close> (lines 359-414).\<close>

definition attachVendorExtensions ::
    "ChatCompletionCreateParams \<Rightarrow> LLMRequest \<Rightarrow> ChatCompletionCreateParams" where
  "attachVendorExtensions params request =
     (let m0 = props params;
          m1 = (if is_object (thinking request)
                then AList.update ''thinking'' (thinking request) m0 else m0);
          m2 = (if is_object (thinking_config request)
                then AList.update ''thinking_config'' (thinking_config request) m1
                else if is_object (thinkingConfig request)
                then AList.update ''thinking_config'' (thinkingConfig request) m1
                else m1);
          m3 = (if is_object (reasoning request)
                then AList.update ''reasoning'' (reasoning request) m2 else m2);
          m5 = (if is_object (extra_body request) then
                  (let tools' = js_get (extra_body request) ''tools'';
                       otherExtraBody =
                         filter (\<lambda>kv. fst kv \<noteq> ''tools'') (own_props (extra_body request));
                       m4 = (if is_array tools'
                             then AList.delete ''tool_choice'' (AList.update ''tools'' tools' m3)
                             else m3)
                   in if length otherExtraBody > 0
                      then AList.update ''extra_body'' (JObj otherExtraBody) m4
                      else m4)
                else m3)
      in params \<lparr> props := m5 \<rparr>)"

text \<open>
  \<^verbatim>\<open>buildChatCompletionCreateParams\<close> (lines 254-357). \<open>base_props\<close> is the object
  literal the two branches share (without \<^verbatim>\<open>messages\<close>); the streaming branch adds
  \<^verbatim>\<open>stream\<close> and \<^verbatim>\<open>stream_options\<close>.
\<close>

definition base_props :: "LLMRequest \<Rightarrow> (string \<times> json) list" where
  "base_props request =
     [(''model'', JStr (model request)),
      (''tools'', tools request),
      (''tool_choice'', tool_choice request),
      (''reasoning_effort'', reasoning_effort request),
      (''web_search_options'', web_search_options request),
      (''max_tokens'', max_tokens request),
      (''temperature'', temperature request),
      (''top_p'', top_p request),
      (''frequency_penalty'', frequency_penalty request),
      (''presence_penalty'', presence_penalty request),
      (''logit_bias'', logit_bias request),
      (''prediction'', prediction request)]"

definition buildChatCompletionCreateParams ::
    "LLMRequest \<Rightarrow> bool \<Rightarrow> error + ChatCompletionCreateParams" where
  "buildChatCompletionCreateParams request stream =
     (case map_throwing parseRequestMessage (messages request) of
        Inl e \<Rightarrow> Inl e
      | Inr parsed \<Rightarrow>
          (let parsedMessages = repair_tool_calls parsed;
               params =
                 \<lparr> wire_messages = parsedMessages,
                   props =
                     (if stream
                      then base_props request @
                        [(''stream'', JBool True),
                         (''stream_options'', JObj [(''include_usage'', JBool True)])]
                      else base_props request) \<rparr>
           in Inr (attachVendorExtensions params request)))"


section \<open>Response translation\<close>

text \<open>
  \<^verbatim>\<open>v ?? d\<close>, and \<^verbatim>\<open>parseStreamingResponseChunk\<close> (lines 494-514). The chunk and its
  choices are the SDK's types, modelled by the fields read; a choice's \<^verbatim>\<open>delta\<close> stays a
  \<open>json\<close> value, since \<^verbatim>\<open>extractReasoningContent\<close> probes it by name and the wire
  may leave it out.

  Line 502 reads \<^verbatim>\<open>choice.delta.content\<close> with no guard: when \<^verbatim>\<open>choice.delta\<close> is
  \<^verbatim>\<open>null\<close> or \<^verbatim>\<open>undefined\<close> the read throws a \<^verbatim>\<open>TypeError\<close>, which leaves the
  callback, \<^verbatim>\<open>chunk.choices.map\<close> and \<^verbatim>\<open>parseStreamingResponseChunk\<close>. On any other
  value (a primitive included) a property read gives the property or \<^verbatim>\<open>undefined\<close>.
\<close>

definition nullish_coalesce :: "json \<Rightarrow> json \<Rightarrow> json" where
  "nullish_coalesce v d = (if v = JUndefined \<or> v = JNull then d else v)"

record ChunkChoice =
  chunk_finish_reason :: json
  chunk_delta :: json

record ChatCompletionChunk =
  chunk_id :: string
  chunk_choices :: "ChunkChoice list"
  chunk_created :: json
  chunk_model :: string
  chunk_system_fingerprint :: json
  chunk_usage :: json

record StreamingDelta =
  delta_content :: json
  delta_reasoning :: "string option"
  delta_role :: json
  delta_tool_calls :: json

record StreamingChoice =
  finish_reason :: json
  delta :: StreamingDelta

record LLMResponseStreaming =
  response_id :: string
  choices :: "StreamingChoice list"
  created :: json
  response_model :: string
  object :: string
  system_fingerprint :: json
  usage :: json

definition parseStreamingChoice :: "ChunkChoice \<Rightarrow> error + StreamingChoice" where
  "parseStreamingChoice choice =
     (if chunk_delta choice = JUndefined \<or> chunk_delta choice = JNull then Inl TypeError
      else Inr
        \<lparr> finish_reason = nullish_coalesce (chunk_finish_reason choice) JNull,
          delta =
            \<lparr> delta_content = nullish_coalesce (js_get (chunk_delta choice) ''content'') JNull,
              delta_reasoning = extractReasoningContent (chunk_delta choice),
              delta_role = js_get (chunk_delta choice) ''role'',
              delta_tool_calls = js_get (chunk_delta choice) ''tool_calls'' \<rparr> \<rparr>)"

definition parseStreamingResponseChunk ::
    "ChatCompletionChunk \<Rightarrow> error + LLMResponseStreaming" where
  "parseStreamingResponseChunk chunk =
     (case map_throwing parseStreamingChoice (chunk_choices chunk) of
        Inl e \<Rightarrow> Inl e
      | Inr parsed \<Rightarrow>
          Inr \<lparr> response_id = chunk_id chunk,
                choices = parsed,
                created = chunk_created chunk,
                response_model = chunk_model chunk,
                object = ''chat.completion.chunk'',
                system_fingerprint = chunk_system_fingerprint chunk,
                usage = nullish_coalesce (chunk_usage chunk) JUndefined \<rparr>)"

section \<open>The coordinator\<close>

text \<open>
  \<^verbatim>\<open>McpCoordinator\<close> (lines 12-118). JavaScript runs each synchronous stretch of code to
  its end, so the coordinator is a state machine with three kinds of steps: a call of
  \<^verbatim>\<open>getMcpManager\<close> (up to its return), the settling of a pending
  \<^verbatim>\<open>initialize()\<close> (which resumes the suspended construction), and a call of
  \<^verbatim>\<open>cleanup\<close>.

  The class \<^verbatim>\<open>McpManager\<close> is not part of the source; its behaviour is a parameter of the
  steps. A manager is identified by the number of the construction that made it, a promise
  by its index in \<open>promises\<close>. \<open>awaiting\<close> holds the suspended constructions: the
  manager whose \<^verbatim>\<open>initialize()\<close> is pending and the promise of the construction.
  \<open>initialized\<close> lists the managers whose \<^verbatim>\<open>initialize()\<close> has completed.
\<close>

type_synonym McpManager = nat
type_synonym promise_id = nat

datatype promise_state =
    Pending
  | Fulfilled "McpManager option"
  | Rejected error

record McpCoordinator =
  mcpManager :: "McpManager option"
  mcpManagerInitPromise :: "promise_id option"

record runtime =
  coordinator :: McpCoordinator
  promises :: "promise_state list"
  constructions :: nat
  awaiting :: "(McpManager \<times> promise_id) list"
  initialized :: "McpManager list"

text \<open>
  What the \<^verbatim>\<open>try\<close> block does before it first suspends: either
  \<^verbatim>\<open>this.getSettings()\<close> or \<^verbatim>\<open>new McpManager(...)\<close> throws, or the manager is stored
  and the block suspends at \<^verbatim>\<open>await this.mcpManager.initialize()\<close>.
\<close>

datatype construction = ConstructorThrows error | InitializePending

text \<open>
  What a call of \<^verbatim>\<open>getMcpManager\<close> returns: the stored manager (the caller's promise is
  fulfilled with it at once) or the stored promise (the caller's promise follows it).
\<close>

datatype returned = ReturnsManager McpManager | ReturnsPromise promise_id

definition new_coordinator :: McpCoordinator where
  "new_coordinator = \<lparr> mcpManager = None, mcpManagerInitPromise = None \<rparr>"

definition new_runtime :: runtime where
  "new_runtime =
     \<lparr> coordinator = new_coordinator, promises = [], constructions = 0,
       awaiting = [], initialized = [] \<rparr>"

text \<open>
  \<^verbatim>\<open>getMcpManager\<close> (lines 28-89). When the constructor throws, the \<^verbatim>\<open>catch\<close> block
  runs before the async function returns its (rejected) promise, and the assignment
  \<^verbatim>\<open>this.mcpManagerInitPromise = ...\<close> of line 55 happens after it.
\<close>

definition getMcpManager :: "construction \<Rightarrow> runtime \<Rightarrow> returned \<times> runtime" where
  "getMcpManager c rt =
     (case mcpManager (coordinator rt) of
        Some m \<Rightarrow> (ReturnsManager m, rt)
      | None \<Rightarrow>
          (case mcpManagerInitPromise (coordinator rt) of
             Some p \<Rightarrow> (ReturnsPromise p, rt)
           | None \<Rightarrow>
               (let p = length (promises rt); m = constructions rt
                in case c of
                     ConstructorThrows e \<Rightarrow>
                       (ReturnsPromise p,
                        rt \<lparr> coordinator :=
                               \<lparr> mcpManager = None, mcpManagerInitPromise = Some p \<rparr>,
                             promises := promises rt @ [Rejected e],
                             constructions := Suc m \<rparr>)
                   | InitializePending \<Rightarrow>
                       (ReturnsPromise p,
                        rt \<lparr> coordinator :=
                               \<lparr> mcpManager = Some m, mcpManagerInitPromise = Some p \<rparr>,
                             promises := promises rt @ [Pending],
                             constructions := Suc m,
                             awaiting := awaiting rt @ [(m, p)] \<rparr>))))"

text \<open>
  The pending \<^verbatim>\<open>initialize()\<close> of manager \<open>m\<close> settles (\<open>None\<close>: it completes,
  \<open>Some e\<close>: it rejects with \<open>e\<close>) and the construction resumes at line 68 or in the
  \<^verbatim>\<open>catch\<close> of line 72. On success the promise is fulfilled with
  \<^verbatim>\<open>this.mcpManager\<close> as it is then.
\<close>

definition initialize_settles :: "McpManager \<Rightarrow> error option \<Rightarrow> runtime \<Rightarrow> runtime" where
  "initialize_settles m failure rt =
     (case map_of (awaiting rt) m of
        None \<Rightarrow> rt
      | Some p \<Rightarrow>
          (case failure of
             None \<Rightarrow>
               rt \<lparr> promises := (promises rt)[p := Fulfilled (mcpManager (coordinator rt))],
                    awaiting := AList.delete m (awaiting rt),
                    initialized := m # initialized rt \<rparr>
           | Some e \<Rightarrow>
               rt \<lparr> coordinator := \<lparr> mcpManager = None, mcpManagerInitPromise = None \<rparr>,
                    promises := (promises rt)[p := Rejected e],
                    awaiting := AList.delete m (awaiting rt) \<rparr>))"

text \<open>What the caller that received \<open>r\<close> observes in the state \<open>rt\<close>.\<close>

definition outcome :: "runtime \<Rightarrow> returned \<Rightarrow> promise_state" where
  "outcome rt r =
     (case r of
        ReturnsManager m \<Rightarrow> Fulfilled (Some m)
      | ReturnsPromise p \<Rightarrow> (if p < length (promises rt) then promises rt ! p else Pending))"

text \<open>
  \<^verbatim>\<open>cleanup\<close> (lines 91-117). \<open>teardown m\<close> is what \<^verbatim>\<open>McpManager.cleanup()\<close> does
  on \<open>m\<close>: \<open>Some e\<close> when it throws \<open>e\<close>. The call is not inside a
  \<^verbatim>\<open>try\<close>, so an exception leaves \<^verbatim>\<open>cleanup\<close> before the two assignments. The
  result is the exception, if any, and the coordinator afterwards.
\<close>

definition cleanup ::
    "(McpManager \<Rightarrow> error option) \<Rightarrow> McpCoordinator \<Rightarrow> error option \<times> McpCoordinator" where
  "cleanup teardown c =
     (case mcpManager c of
        Some m \<Rightarrow>
          (case teardown m of
             Some e \<Rightarrow> (Some e, c)
           | None \<Rightarrow> (None, \<lparr> mcpManager = None, mcpManagerInitPromise = None \<rparr>))
      | None \<Rightarrow> (None, \<lparr> mcpManager = None, mcpManagerInitPromise = None \<rparr>))"

section \<open>Example inputs\<close>

text \<open>A request with nothing set but its model and its messages, for the examples below.\<close>

abbreviation plain_request :: "RequestMessage list \<Rightarrow> LLMRequest" where
  "plain_request ms \<equiv>
     \<lparr> messages = ms, model = ''m'', tools = JUndefined, tool_choice = JUndefined,
       reasoning_effort = JUndefined, web_search_options = JUndefined,
       max_tokens = JUndefined, temperature = JUndefined, top_p = JUndefined,
       frequency_penalty = JUndefined, presence_penalty = JUndefined,
       logit_bias = JUndefined, prediction = JUndefined, thinking = JUndefined,
       thinking_config = JUndefined, thinkingConfig = JUndefined, reasoning = JUndefined,
       extra_body = JUndefined \<rparr>"

lemmas build_eval =
  buildChatCompletionCreateParams_def attachVendorExtensions_def repair_tool_calls_def
  base_props_def parseToolCall_def Let_def


section \<open>Reasoning extraction: precedence (C5)\<close>

lemma truthy_parts_eq: "truthy_parts ps = [s. Some s \<leftarrow> ps, s \<noteq> []]"
  by (induction ps rule: truthy_parts.induct) simp_all

lemma js_get_string_in: "js_get source k = JStr s \<Longrightarrow> is_object source \<and> js_in k source"
  by (cases source) (auto split: option.splits)

lemma js_get_array_in: "js_get source k = JArr xs \<Longrightarrow> is_object source \<and> js_in k source"
  by (cases source) (auto split: option.splits)


text \<open>
  The claim C5 as worded does not hold. It asks for the first \<^emph>\<open>non-empty\<close> match, and
  names the variants \<^verbatim>\<open>{type: "text"}\<close> and \<^verbatim>\<open>{type: "summary"}\<close>. The code returns a
  string-valued \<^verbatim>\<open>reasoning_content\<close> even when it is empty, although a non-empty
  \<^verbatim>\<open>reasoning\<close> follows; and an entry of type \<^verbatim>\<open>"text"\<close> is not extracted: the tags
  the code compares with are \<^verbatim>\<open>"reasoning.text"\<close> and \<^verbatim>\<open>"reasoning.summary"\<close>.
\<close>

theorem extractReasoningContent_counterexample:
  "extractReasoningContent
     (JObj [(''reasoning_content'', JStr ''''), (''reasoning'', JStr ''abc'')]) = Some ''''
   \<and> extractReasoningContent
     (JObj [(''reasoning_details'',
             JArr [JObj [(''type'', JStr ''text''), (''text'', JStr ''abc'')]])]) = None"
  by (simp add: extractReasoningContent_def detail_part_def)


text \<open>
  C5, amended. For every value \<open>source\<close>, \<^verbatim>\<open>extractReasoningContent\<close> returns the first
  match in this order: the \<^verbatim>\<open>reasoning_content\<close> property when it is a string (empty or
  not); else the \<^verbatim>\<open>reasoning\<close> property when it is a string (empty or not); else, when
  \<^verbatim>\<open>reasoning_details\<close> is an array, the non-empty strings extracted from its entries, in
  array order, joined by newlines, and nothing when there is no such string (in particular
  for the empty array); else nothing. An entry yields its \<^verbatim>\<open>text\<close> when its type is
  \<^verbatim>\<open>"reasoning.text"\<close> and its \<^verbatim>\<open>summary\<close> when its type is
  \<^verbatim>\<open>"reasoning.summary"\<close> (each when it is a string), and nothing for any other type. So an
  object with a \<^verbatim>\<open>reasoning\<close> string, a \<^verbatim>\<open>reasoning_details\<close> array and no
  \<^verbatim>\<open>reasoning_content\<close> string yields the \<^verbatim>\<open>reasoning\<close> string.
\<close>

theorem extractReasoningContent_precedence:
  "(js_get source ''reasoning_content'' = JStr s
      \<longrightarrow> extractReasoningContent source = Some s)
   \<and> (string_of (js_get source ''reasoning_content'') = None
      \<and> js_get source ''reasoning'' = JStr s
      \<longrightarrow> extractReasoningContent source = Some s)
   \<and> (string_of (js_get source ''reasoning_content'') = None
      \<and> string_of (js_get source ''reasoning'') = None
      \<and> js_get source ''reasoning_details'' = JArr details
      \<longrightarrow> extractReasoningContent source =
           (if [p. Some p \<leftarrow> map detail_part details, p \<noteq> []] = [] then None
            else Some (join [CHR 0x0A] [p. Some p \<leftarrow> map detail_part details, p \<noteq> []])))
   \<and> (string_of (js_get source ''reasoning_content'') = None
      \<and> string_of (js_get source ''reasoning'') = None
      \<and> \<not> is_array (js_get source ''reasoning_details'')
      \<longrightarrow> extractReasoningContent source = None)
   \<and> (js_get detail ''type'' = JStr ''reasoning.text'' \<and> js_get detail ''text'' = JStr t
      \<longrightarrow> detail_part detail = Some t)
   \<and> (js_get detail ''type'' = JStr ''reasoning.summary'' \<and> js_get detail ''summary'' = JStr t
      \<longrightarrow> detail_part detail = Some t)
   \<and> (js_get detail ''type'' \<noteq> JStr ''reasoning.text''
      \<and> js_get detail ''type'' \<noteq> JStr ''reasoning.summary''
      \<longrightarrow> detail_part detail = None)"
proof (intro conjI impI)
  assume "js_get source ''reasoning_content'' = JStr s"
  then show "extractReasoningContent source = Some s"
    using js_get_string_in [of source "''reasoning_content''" s]
    by (simp add: extractReasoningContent_def)
next
  assume a: "string_of (js_get source ''reasoning_content'') = None
      \<and> js_get source ''reasoning'' = JStr s"
  then show "extractReasoningContent source = Some s"
    using js_get_string_in [of source "''reasoning''" s]
    by (simp add: extractReasoningContent_def)
next
  assume a: "string_of (js_get source ''reasoning_content'') = None
      \<and> string_of (js_get source ''reasoning'') = None
      \<and> js_get source ''reasoning_details'' = JArr details"
  then show "extractReasoningContent source =
           (if [p. Some p \<leftarrow> map detail_part details, p \<noteq> []] = [] then None
            else Some (join [CHR 0x0A] [p. Some p \<leftarrow> map detail_part details, p \<noteq> []]))"
    using js_get_array_in [of source "''reasoning_details''" details]
    by (simp add: extractReasoningContent_def truthy_parts_eq Let_def)
next
  assume a: "string_of (js_get source ''reasoning_content'') = None
      \<and> string_of (js_get source ''reasoning'') = None
      \<and> \<not> is_array (js_get source ''reasoning_details'')"
  then show "extractReasoningContent source = None"
    by (cases "js_get source ''reasoning_details''")
       (simp_all add: extractReasoningContent_def)
next
  assume "js_get detail ''type'' = JStr ''reasoning.text'' \<and> js_get detail ''text'' = JStr t"
  then show "detail_part detail = Some t"
    using js_get_string_in [of detail "''text''" t]
    by (simp add: detail_part_def)
next
  assume "js_get detail ''type'' = JStr ''reasoning.summary'' \<and> js_get detail ''summary'' = JStr t"
  then show "detail_part detail = Some t"
    using js_get_string_in [of detail "''summary''" t]
    by (simp add: detail_part_def)
next
  assume "js_get detail ''type'' \<noteq> JStr ''reasoning.text''
      \<and> js_get detail ''type'' \<noteq> JStr ''reasoning.summary''"
  then show "detail_part detail = None"
    by (simp add: detail_part_def)
qed


theorem extractReasoningContent_precedence_witness:
  "extractReasoningContent
     (JObj [(''reasoning_content'', JStr ''rc''), (''reasoning'', JStr ''raw'')]) = Some ''rc''
   \<and> extractReasoningContent
     (JObj [(''reasoning'', JStr ''raw''),
            (''reasoning_details'',
             JArr [JObj [(''type'', JStr ''reasoning.text''), (''text'', JStr ''abc'')]])])
       = Some ''raw''
   \<and> extractReasoningContent
     (JObj [(''reasoning_details'',
             JArr [JObj [(''type'', JStr ''reasoning.text''), (''text'', JStr ''abc'')],
                   JObj [(''type'', JStr ''reasoning.text''), (''text'', JStr '''')],
                   JObj [(''type'', JStr ''reasoning.summary''), (''summary'', JStr ''de'')]])])
       = Some (''abc'' @ [CHR 0x0A] @ ''de'')
   \<and> extractReasoningContent (JObj [(''content'', JStr ''hi'')]) = None
   \<and> detail_part (JObj [(''type'', JStr ''reasoning.text''), (''text'', JStr ''abc'')]) = Some ''abc''
   \<and> detail_part (JObj [(''type'', JStr ''reasoning.summary''), (''summary'', JStr ''de'')]) = Some ''de''
   \<and> detail_part (JObj [(''type'', JStr ''text''), (''text'', JStr ''abc'')]) = None"
  using
    extractReasoningContent_precedence
      [where source = "JObj [(''reasoning_content'', JStr ''rc''), (''reasoning'', JStr ''raw'')]"
         and s = "''rc''"]
    extractReasoningContent_precedence
      [where source = "JObj [(''reasoning'', JStr ''raw''),
            (''reasoning_details'',
             JArr [JObj [(''type'', JStr ''reasoning.text''), (''text'', JStr ''abc'')]])]"
         and s = "''raw''"
         and detail = "JObj [(''type'', JStr ''reasoning.text''), (''text'', JStr ''abc'')]"
         and t = "''abc''"]
    extractReasoningContent_precedence
      [where source = "JObj [(''reasoning_details'',
             JArr [JObj [(''type'', JStr ''reasoning.text''), (''text'', JStr ''abc'')],
                   JObj [(''type'', JStr ''reasoning.text''), (''text'', JStr '''')],
                   JObj [(''type'', JStr ''reasoning.summary''), (''summary'', JStr ''de'')]])]"
         and details = "[JObj [(''type'', JStr ''reasoning.text''), (''text'', JStr ''abc'')],
                   JObj [(''type'', JStr ''reasoning.text''), (''text'', JStr '''')],
                   JObj [(''type'', JStr ''reasoning.summary''), (''summary'', JStr ''de'')]]"
         and detail = "JObj [(''type'', JStr ''reasoning.summary''), (''summary'', JStr ''de'')]"
         and t = "''de''"]
    extractReasoningContent_precedence
      [where source = "JObj [(''content'', JStr ''hi'')]"
         and detail = "JObj [(''type'', JStr ''text''), (''text'', JStr ''abc'')]"]
  by (simp add: detail_part_def)

section \<open>Tool-call integrity repair (C2)\<close>

lemma map_throwing_Inr:
  "map_throwing f xs = Inr ys \<Longrightarrow> list_all2 (\<lambda>x y. f x = Inr y) xs ys"
  by (induction xs arbitrary: ys) (auto split: sum.splits)

lemma map_throwing_Inl:
  "(\<exists>e. map_throwing f xs = Inl e) = (\<exists>x \<in> set xs. \<exists>e. f x = Inl e)"
  by (induction xs) (auto split: sum.splits)

lemma map_throwing_Inl_error:
  "map_throwing f xs = Inl e \<Longrightarrow> \<exists>x \<in> set xs. f x = Inl e"
  by (induction xs) (auto split: sum.splits)

lemma set_tool_call_ids:
  "set (tool_call_ids pms) = {i. \<exists>c. ToolParam c i \<in> set pms}"
  by (induction pms rule: tool_call_ids.induct) auto

lemma wire_messages_attach:
  "wire_messages (attachVendorExtensions params request) = wire_messages params"
  by (simp add: attachVendorExtensions_def Let_def)

lemma build_Inr:
  "buildChatCompletionCreateParams request stream = Inr payload \<Longrightarrow>
   \<exists>parsed. map_throwing parseRequestMessage (messages request) = Inr parsed
     \<and> wire_messages payload = repair_tool_calls parsed
     \<and> props payload =
         props (attachVendorExtensions
           \<lparr> wire_messages = repair_tool_calls parsed,
             props = (if stream
                      then base_props request @
                        [(''stream'', JBool True),
                         (''stream_options'', JObj [(''include_usage'', JBool True)])]
                      else base_props request) \<rparr> request)"
  by (auto simp: buildChatCompletionCreateParams_def Let_def wire_messages_attach
      split: sum.splits)

lemma filter_tool_calls_ToolParam:
  "(filter_tool_calls ids pm = ToolParam c i) = (pm = ToolParam c i)"
  by (cases "(ids, pm)" rule: filter_tool_calls.cases) (auto simp: Let_def)

lemma ToolParam_in_repair:
  "(ToolParam c i \<in> set (repair_tool_calls pms)) = (ToolParam c i \<in> set pms)"
  unfolding repair_tool_calls_def Let_def set_map image_iff
  by (metis filter_tool_calls_ToolParam)

lemma filter_tool_calls_Assistant:
  "filter_tool_calls ids pm = AssistantParam c (Defined tcs) \<Longrightarrow>
   tcs \<noteq> [] \<and> (\<forall>tc \<in> set tcs. wtc_id tc \<in> set ids)"
  by (cases "(ids, pm)" rule: filter_tool_calls.cases)
     (auto simp: Let_def split: if_splits)

lemma parse_ToolParam:
  "parseRequestMessage m = Inr (ToolParam c i) \<Longrightarrow> \<exists>t. m = ToolMessage c t \<and> tc_id t = i"
  by (cases m rule: parseRequestMessage.cases) auto

lemma parsed_tool_ids:
  assumes "list_all2 (\<lambda>x y. parseRequestMessage x = Inr y) ms parsed"
  shows "set (tool_call_ids parsed) = {tc_id t |c t. ToolMessage c t \<in> set ms}"
proof -
  have "\<And>c i. (ToolParam c i \<in> set parsed) = (\<exists>t. ToolMessage c t \<in> set ms \<and> tc_id t = i)"
  proof
    fix c i
    assume "ToolParam c i \<in> set parsed"
    then obtain k where k: "k < length parsed" "parsed ! k = ToolParam c i"
      by (auto simp: in_set_conv_nth)
    with assms have "parseRequestMessage (ms ! k) = Inr (ToolParam c i)" "k < length ms"
      by (auto simp: list_all2_conv_all_nth)
    then show "\<exists>t. ToolMessage c t \<in> set ms \<and> tc_id t = i"
      using parse_ToolParam nth_mem by metis
  next
    fix c i
    assume "\<exists>t. ToolMessage c t \<in> set ms \<and> tc_id t = i"
    then obtain t k where k: "k < length ms" "ms ! k = ToolMessage c t" "tc_id t = i"
      by (auto simp: in_set_conv_nth)
    with assms have "parsed ! k = ToolParam c i" "k < length parsed"
      by (auto simp: list_all2_conv_all_nth)
    then show "ToolParam c i \<in> set parsed"
      using nth_mem by metis
  qed
  then show ?thesis
    by (auto simp: set_tool_call_ids)
qed


text \<open>
  C2. Whenever \<^verbatim>\<open>buildChatCompletionCreateParams\<close> returns a payload: every assistant
  message of the payload that has a \<^verbatim>\<open>tool_calls\<close> list has a non-empty one, and each of
  its entries has the \<^verbatim>\<open>tool_call_id\<close> of a tool message of the same payload as its
  \<^verbatim>\<open>id\<close>; the payload has one message per request message; and the assistant message
  translated from the request's \<open>i\<close>-th message keeps exactly the translated tool calls
  whose id is the id of a tool message of the request, in order, or has no
  \<^verbatim>\<open>tool_calls\<close> property at all (\<open>Absent\<close>, never \<open>Defined []\<close>) when none is kept.
\<close>

theorem buildChatCompletionCreateParams_tool_call_integrity:
  assumes "buildChatCompletionCreateParams request stream = Inr payload"
  shows "(\<forall>c tcs. AssistantParam c (Defined tcs) \<in> set (wire_messages payload) \<longrightarrow>
            tcs \<noteq> [] \<and>
            (\<forall>tc \<in> set tcs. \<exists>content. ToolParam content (wtc_id tc) \<in> set (wire_messages payload)))
       \<and> length (wire_messages payload) = length (messages request)
       \<and> (\<forall>i s tcs. i < length (messages request)
            \<and> messages request ! i = AssistantMessage (ContentString s) (Some tcs) \<longrightarrow>
            wire_messages payload ! i =
              AssistantParam s
                (if filter (\<lambda>tc. wtc_id tc \<in> {tc_id t |c t. ToolMessage c t \<in> set (messages request)})
                      (map parseToolCall tcs) = []
                 then Absent
                 else Defined
                   (filter (\<lambda>tc. wtc_id tc \<in> {tc_id t |c t. ToolMessage c t \<in> set (messages request)})
                      (map parseToolCall tcs))))"
proof -
  from assms obtain parsed where
    p: "map_throwing parseRequestMessage (messages request) = Inr parsed"
    and w: "wire_messages payload = repair_tool_calls parsed"
    using build_Inr by blast
  from p have l2: "list_all2 (\<lambda>x y. parseRequestMessage x = Inr y) (messages request) parsed"
    by (rule map_throwing_Inr)
  have ids: "set (tool_call_ids parsed) = {tc_id t |c t. ToolMessage c t \<in> set (messages request)}"
    using l2 by (rule parsed_tool_ids)
  have a: "\<forall>c tcs. AssistantParam c (Defined tcs) \<in> set (wire_messages payload) \<longrightarrow>
            tcs \<noteq> [] \<and>
            (\<forall>tc \<in> set tcs. \<exists>content. ToolParam content (wtc_id tc) \<in> set (wire_messages payload))"
  proof (intro allI impI)
    fix c tcs
    assume "AssistantParam c (Defined tcs) \<in> set (wire_messages payload)"
    then obtain pm where "filter_tool_calls (tool_call_ids parsed) pm = AssistantParam c (Defined tcs)"
      by (auto simp: w repair_tool_calls_def Let_def)
    then have "tcs \<noteq> [] \<and> (\<forall>tc \<in> set tcs. wtc_id tc \<in> set (tool_call_ids parsed))"
      by (rule filter_tool_calls_Assistant)
    then show "tcs \<noteq> [] \<and>
        (\<forall>tc \<in> set tcs. \<exists>content. ToolParam content (wtc_id tc) \<in> set (wire_messages payload))"
      by (simp add: w ToolParam_in_repair set_tool_call_ids)
  qed
  have b: "length (wire_messages payload) = length (messages request)"
    using l2 by (simp add: w repair_tool_calls_def Let_def list_all2_lengthD)
  have c: "\<forall>i s tcs. i < length (messages request)
            \<and> messages request ! i = AssistantMessage (ContentString s) (Some tcs) \<longrightarrow>
            wire_messages payload ! i =
              AssistantParam s
                (if filter (\<lambda>tc. wtc_id tc \<in> {tc_id t |c t. ToolMessage c t \<in> set (messages request)})
                      (map parseToolCall tcs) = []
                 then Absent
                 else Defined
                   (filter (\<lambda>tc. wtc_id tc \<in> {tc_id t |c t. ToolMessage c t \<in> set (messages request)})
                      (map parseToolCall tcs)))"
  proof (intro allI impI)
    fix i s tcs
    assume h: "i < length (messages request)
            \<and> messages request ! i = AssistantMessage (ContentString s) (Some tcs)"
    with l2 have pi: "parsed ! i = AssistantParam s (Defined (map parseToolCall tcs))"
      and il: "i < length parsed"
      by (auto simp: list_all2_conv_all_nth)
    have "wire_messages payload ! i = filter_tool_calls (tool_call_ids parsed) (parsed ! i)"
      using il by (simp add: w repair_tool_calls_def Let_def)
    then show "wire_messages payload ! i =
              AssistantParam s
                (if filter (\<lambda>tc. wtc_id tc \<in> {tc_id t |c t. ToolMessage c t \<in> set (messages request)})
                      (map parseToolCall tcs) = []
                 then Absent
                 else Defined
                   (filter (\<lambda>tc. wtc_id tc \<in> {tc_id t |c t. ToolMessage c t \<in> set (messages request)})
                      (map parseToolCall tcs)))"
      by (simp add: pi ids Let_def)
  qed
  from a b c show ?thesis by blast
qed

theorem buildChatCompletionCreateParams_tool_call_integrity_witness:
  "\<exists>payload.
     buildChatCompletionCreateParams
       (plain_request
          [AssistantMessage (ContentString ''a'')
             (Some [\<lparr> tc_id = ''call_1'', tc_name = ''f'', tc_arguments = None \<rparr>,
                    \<lparr> tc_id = ''call_2'', tc_name = ''g'', tc_arguments = None \<rparr>]),
           ToolMessage ''result'' \<lparr> tc_id = ''call_1'', tc_name = ''f'', tc_arguments = None \<rparr>,
           AssistantMessage (ContentString ''b'')
             (Some [\<lparr> tc_id = ''call_3'', tc_name = ''h'', tc_arguments = None \<rparr>])])
       False = Inr payload
     \<and> wire_messages payload =
         [AssistantParam ''a''
            (Defined [\<lparr> wtc_id = ''call_1'',
                        wtc_function = \<lparr> fn_arguments = ''{}'', fn_name = ''f'' \<rparr>,
                        wtc_type = ''function'' \<rparr>]),
          ToolParam ''result'' ''call_1'',
          AssistantParam ''b'' Absent]
     \<and> length (wire_messages payload) = 3"
proof -
  let ?r = "plain_request
          [AssistantMessage (ContentString ''a'')
             (Some [\<lparr> tc_id = ''call_1'', tc_name = ''f'', tc_arguments = None \<rparr>,
                    \<lparr> tc_id = ''call_2'', tc_name = ''g'', tc_arguments = None \<rparr>]),
           ToolMessage ''result'' \<lparr> tc_id = ''call_1'', tc_name = ''f'', tc_arguments = None \<rparr>,
           AssistantMessage (ContentString ''b'')
             (Some [\<lparr> tc_id = ''call_3'', tc_name = ''h'', tc_arguments = None \<rparr>])]"
  obtain payload where h: "buildChatCompletionCreateParams ?r False = Inr payload"
    by (simp add: build_eval)
  have m: "wire_messages payload =
         [AssistantParam ''a''
            (Defined [\<lparr> wtc_id = ''call_1'',
                        wtc_function = \<lparr> fn_arguments = ''{}'', fn_name = ''f'' \<rparr>,
                        wtc_type = ''function'' \<rparr>]),
          ToolParam ''result'' ''call_1'',
          AssistantParam ''b'' Absent]"
    using h by (auto simp: build_eval)
  have "length (wire_messages payload) = 3"
    using buildChatCompletionCreateParams_tool_call_integrity [OF h] by simp
  with h m show ?thesis by blast
qed

section \<open>Vendor extensions: the extra body (C6)\<close>

lemma attach_other_keys:
  "k \<notin> {''thinking'', ''thinking_config'', ''reasoning'', ''tools'', ''tool_choice'', ''extra_body''}
   \<Longrightarrow> map_of (props (attachVendorExtensions params request)) k = map_of (props params) k"
  by (simp add: attachVendorExtensions_def Let_def update_conv' delete_conv')

lemma attach_extra_body:
  assumes "extra_body request = JObj bag"
  shows "map_of (props (attachVendorExtensions params request)) ''extra_body'' =
         (if filter (\<lambda>kv. fst kv \<noteq> ''tools'') bag = [] then map_of (props params) ''extra_body''
          else Some (JObj (filter (\<lambda>kv. fst kv \<noteq> ''tools'') bag)))"
  using assms by (simp add: attachVendorExtensions_def Let_def update_conv' delete_conv')

lemma attach_tools:
  assumes "extra_body request = JObj bag" and "map_of bag ''tools'' = Some (JArr ts)"
  shows "map_of (props (attachVendorExtensions params request)) ''tools'' = Some (JArr ts)
       \<and> map_of (props (attachVendorExtensions params request)) ''tool_choice'' = None"
  using assms by (simp add: attachVendorExtensions_def Let_def update_conv' delete_conv')

lemma base_no_extra_body:
  "map_of (if stream
           then base_props request @
             [(''stream'', JBool True),
              (''stream_options'', JObj [(''include_usage'', JBool True)])]
           else base_props request) ''extra_body'' = None"
  by (simp add: base_props_def)


text \<open>
  The claim C6 as worded does not hold in its second half: the other keys of the
  \<^verbatim>\<open>extra_body\<close> bag are not merged into the payload. The payload built from an
  \<^verbatim>\<open>extra_body\<close> of \<^verbatim>\<open>{tools: ["extension"], foo: "bar"}\<close> has no property
  \<^verbatim>\<open>foo\<close>; it has a property \<^verbatim>\<open>extra_body\<close> holding the object
  \<^verbatim>\<open>{foo: "bar"}\<close> (line 409). The first half holds there: \<^verbatim>\<open>tools\<close> is the
  extension's array and \<^verbatim>\<open>tool_choice\<close> is gone.
\<close>

theorem buildChatCompletionCreateParams_extra_body_counterexample:
  "buildChatCompletionCreateParams
     ((plain_request [])
        \<lparr> tools := JArr [JStr ''canonical''],
          tool_choice := JStr ''auto'',
          extra_body := JObj [(''tools'', JArr [JStr ''extension'']), (''foo'', JStr ''bar'')] \<rparr>)
     False
   = Inr \<lparr> wire_messages = [],
           props =
             [(''model'', JStr ''m''),
              (''tools'', JArr [JStr ''extension'']),
              (''reasoning_effort'', JUndefined),
              (''web_search_options'', JUndefined),
              (''max_tokens'', JUndefined),
              (''temperature'', JUndefined),
              (''top_p'', JUndefined),
              (''frequency_penalty'', JUndefined),
              (''presence_penalty'', JUndefined),
              (''logit_bias'', JUndefined),
              (''prediction'', JUndefined),
              (''extra_body'', JObj [(''foo'', JStr ''bar'')])] \<rparr>"
  by (simp add: build_eval)


lemma attach_no_tools_array:
  assumes "extra_body request = JObj bag" and "\<not> is_array (js_get (JObj bag) ''tools'')"
  shows "map_of (props (attachVendorExtensions params request)) ''tools'' =
           map_of (props params) ''tools''
       \<and> map_of (props (attachVendorExtensions params request)) ''tool_choice'' =
           map_of (props params) ''tool_choice''"
  using assms by (simp add: attachVendorExtensions_def Let_def update_conv' delete_conv')

lemma base_tools:
  "map_of (if stream
           then base_props request @
             [(''stream'', JBool True),
              (''stream_options'', JObj [(''include_usage'', JBool True)])]
           else base_props request) ''tools'' = Some (tools request)
   \<and> map_of (if stream
           then base_props request @
             [(''stream'', JBool True),
              (''stream_options'', JObj [(''include_usage'', JBool True)])]
           else base_props request) ''tool_choice'' = Some (tool_choice request)"
  by (simp add: base_props_def)

lemma base_keys:
  "map_of (if stream
           then base_props request @
             [(''stream'', JBool True),
              (''stream_options'', JObj [(''include_usage'', JBool True)])]
           else base_props request) k \<noteq> None \<Longrightarrow>
   k \<in> {''model'', ''tools'', ''tool_choice'', ''reasoning_effort'', ''web_search_options'',
        ''max_tokens'', ''temperature'', ''top_p'', ''frequency_penalty'',
        ''presence_penalty'', ''logit_bias'', ''prediction'', ''stream'', ''stream_options''}"
  by (auto simp: base_props_def split: if_splits)

text \<open>
  C6, amended. Whenever \<^verbatim>\<open>buildChatCompletionCreateParams\<close> returns a payload for a
  request whose \<^verbatim>\<open>extra_body\<close> is an object: if that object has a \<^verbatim>\<open>tools\<close> array,
  the payload's \<^verbatim>\<open>tools\<close> is that array and the payload has no \<^verbatim>\<open>tool_choice\<close>
  property (otherwise both are the request's); the other properties of the object,
  unchanged and in their order, are carried as one object under the payload's
  \<^verbatim>\<open>extra_body\<close> property, which exists only when there is at least one of them; and
  they are not merged into the payload itself: every property of the payload other than
  \<^verbatim>\<open>thinking\<close>, \<^verbatim>\<open>thinking_config\<close>, \<^verbatim>\<open>reasoning\<close>, \<^verbatim>\<open>tools\<close>,
  \<^verbatim>\<open>tool_choice\<close> and \<^verbatim>\<open>extra_body\<close> is the one the request's own fields give, and
  the payload has no property outside its fixed names, whatever the keys of the bag.
\<close>

theorem buildChatCompletionCreateParams_extra_body_tools:
  assumes "buildChatCompletionCreateParams request stream = Inr payload"
    and "extra_body request = JObj bag"
  shows "(\<forall>ts. map_of bag ''tools'' = Some (JArr ts) \<longrightarrow>
            map_of (props payload) ''tools'' = Some (JArr ts)
            \<and> map_of (props payload) ''tool_choice'' = None)
       \<and> map_of (props payload) ''extra_body'' =
           (if filter (\<lambda>kv. fst kv \<noteq> ''tools'') bag = [] then None
            else Some (JObj (filter (\<lambda>kv. fst kv \<noteq> ''tools'') bag)))
       \<and> (\<not> is_array (js_get (JObj bag) ''tools'') \<longrightarrow>
            map_of (props payload) ''tools'' = Some (tools request)
            \<and> map_of (props payload) ''tool_choice'' = Some (tool_choice request))
       \<and> (\<forall>k. k \<notin> {''thinking'', ''thinking_config'', ''reasoning'', ''tools'',
                      ''tool_choice'', ''extra_body''} \<longrightarrow>
            map_of (props payload) k =
              map_of (if stream
                      then base_props request @
                        [(''stream'', JBool True),
                         (''stream_options'', JObj [(''include_usage'', JBool True)])]
                      else base_props request) k)
       \<and> (\<forall>k. map_of (props payload) k \<noteq> None \<longrightarrow>
            k \<in> {''model'', ''tools'', ''tool_choice'', ''reasoning_effort'',
                 ''web_search_options'', ''max_tokens'', ''temperature'', ''top_p'',
                 ''frequency_penalty'', ''presence_penalty'', ''logit_bias'', ''prediction'',
                 ''stream'', ''stream_options'', ''thinking'', ''thinking_config'',
                 ''reasoning'', ''extra_body''})"
proof -
  let ?base = "if stream
               then base_props request @
                 [(''stream'', JBool True),
                  (''stream_options'', JObj [(''include_usage'', JBool True)])]
               else base_props request"
  from assms(1) obtain parsed where
    p: "props payload =
         props (attachVendorExtensions
           \<lparr> wire_messages = repair_tool_calls parsed, props = ?base \<rparr> request)"
    using build_Inr by blast
  have a: "\<forall>ts. map_of bag ''tools'' = Some (JArr ts) \<longrightarrow>
            map_of (props payload) ''tools'' = Some (JArr ts)
            \<and> map_of (props payload) ''tool_choice'' = None"
    using attach_tools [OF assms(2)] by (simp add: p)
  have b: "map_of (props payload) ''extra_body'' =
           (if filter (\<lambda>kv. fst kv \<noteq> ''tools'') bag = [] then None
            else Some (JObj (filter (\<lambda>kv. fst kv \<noteq> ''tools'') bag)))"
    using attach_extra_body [OF assms(2)] base_no_extra_body by (simp add: p)
  have c: "\<not> is_array (js_get (JObj bag) ''tools'') \<longrightarrow>
            map_of (props payload) ''tools'' = Some (tools request)
            \<and> map_of (props payload) ''tool_choice'' = Some (tool_choice request)"
  proof
    assume n: "\<not> is_array (js_get (JObj bag) ''tools'')"
    show "map_of (props payload) ''tools'' = Some (tools request)
            \<and> map_of (props payload) ''tool_choice'' = Some (tool_choice request)"
      using attach_no_tools_array [OF assms(2) n] base_tools [of stream request]
      by (simp only: p ChatCompletionCreateParams.simps)
  qed
  have d: "\<forall>k. k \<notin> {''thinking'', ''thinking_config'', ''reasoning'', ''tools'',
                      ''tool_choice'', ''extra_body''} \<longrightarrow>
            map_of (props payload) k = map_of ?base k"
  proof (intro allI impI)
    fix k :: string
    assume "k \<notin> {''thinking'', ''thinking_config'', ''reasoning'', ''tools'',
                      ''tool_choice'', ''extra_body''}"
    then have "map_of (props (attachVendorExtensions
           \<lparr> wire_messages = repair_tool_calls parsed, props = ?base \<rparr> request)) k =
        map_of (props \<lparr> wire_messages = repair_tool_calls parsed, props = ?base \<rparr>) k"
      by (rule attach_other_keys)
    then show "map_of (props payload) k = map_of ?base k"
      by (simp add: p)
  qed
  have e: "\<forall>k. map_of (props payload) k \<noteq> None \<longrightarrow>
            k \<in> {''model'', ''tools'', ''tool_choice'', ''reasoning_effort'',
                 ''web_search_options'', ''max_tokens'', ''temperature'', ''top_p'',
                 ''frequency_penalty'', ''presence_penalty'', ''logit_bias'', ''prediction'',
                 ''stream'', ''stream_options'', ''thinking'', ''thinking_config'',
                 ''reasoning'', ''extra_body''}"
  proof (intro allI impI)
    fix k :: string
    assume nn: "map_of (props payload) k \<noteq> None"
    show "k \<in> {''model'', ''tools'', ''tool_choice'', ''reasoning_effort'',
                 ''web_search_options'', ''max_tokens'', ''temperature'', ''top_p'',
                 ''frequency_penalty'', ''presence_penalty'', ''logit_bias'', ''prediction'',
                 ''stream'', ''stream_options'', ''thinking'', ''thinking_config'',
                 ''reasoning'', ''extra_body''}"
    proof (cases "k \<in> {''thinking'', ''thinking_config'', ''reasoning'', ''tools'',
                      ''tool_choice'', ''extra_body''}")
      case True
      then show ?thesis by auto
    next
      case False
      from d [THEN spec, of k] False have "map_of (props payload) k = map_of ?base k"
        by (rule mp)
      with nn have "map_of ?base k \<noteq> None" by simp
      then have "k \<in> {''model'', ''tools'', ''tool_choice'', ''reasoning_effort'',
        ''web_search_options'', ''max_tokens'', ''temperature'', ''top_p'',
        ''frequency_penalty'', ''presence_penalty'', ''logit_bias'', ''prediction'',
        ''stream'', ''stream_options''}"
        by (rule base_keys)
      then show ?thesis by auto
    qed
  qed
  show ?thesis
    by (rule conjI [OF a conjI [OF b conjI [OF c conjI [OF d e]]]])
qed

theorem buildChatCompletionCreateParams_extra_body_tools_witness:
  "(\<exists>payload.
     buildChatCompletionCreateParams
       ((plain_request [])
          \<lparr> tools := JArr [JStr ''canonical''],
            tool_choice := JStr ''auto'',
            extra_body := JObj [(''tools'', JArr [JStr ''extension'']), (''foo'', JStr ''bar''),
                                (''model'', JStr ''other'')] \<rparr>)
       True = Inr payload
     \<and> map_of (props payload) ''tools'' = Some (JArr [JStr ''extension''])
     \<and> map_of (props payload) ''tool_choice'' = None
     \<and> map_of (props payload) ''extra_body'' =
         Some (JObj [(''foo'', JStr ''bar''), (''model'', JStr ''other'')])
     \<and> map_of (props payload) ''foo'' = None
     \<and> map_of (props payload) ''model'' = Some (JStr ''m''))
   \<and> (\<exists>payload.
     buildChatCompletionCreateParams
       ((plain_request [])
          \<lparr> tools := JArr [JStr ''canonical''],
            tool_choice := JStr ''auto'',
            extra_body := JObj [(''tools'', JStr ''none'')] \<rparr>)
       False = Inr payload
     \<and> map_of (props payload) ''tools'' = Some (JArr [JStr ''canonical''])
     \<and> map_of (props payload) ''tool_choice'' = Some (JStr ''auto'')
     \<and> map_of (props payload) ''extra_body'' = None)"
proof -
  let ?r = "(plain_request [])
          \<lparr> tools := JArr [JStr ''canonical''],
            tool_choice := JStr ''auto'',
            extra_body := JObj [(''tools'', JArr [JStr ''extension'']), (''foo'', JStr ''bar''),
                                (''model'', JStr ''other'')] \<rparr>"
  let ?bag = "[(''tools'', JArr [JStr ''extension'']), (''foo'', JStr ''bar''),
              (''model'', JStr ''other'')]"
  obtain payload where h: "buildChatCompletionCreateParams ?r True = Inr payload"
    by (simp add: build_eval)
  have e: "extra_body ?r = JObj ?bag"
    by simp
  note t = buildChatCompletionCreateParams_extra_body_tools [OF h e]
  have a: "map_of (props payload) ''tools'' = Some (JArr [JStr ''extension''])
     \<and> map_of (props payload) ''tool_choice'' = None"
    using t [THEN conjunct1, THEN spec, of "[JStr ''extension'']"] by simp
  have b: "map_of (props payload) ''extra_body'' =
         Some (JObj [(''foo'', JStr ''bar''), (''model'', JStr ''other'')])"
    using t [THEN conjunct2, THEN conjunct1] by simp
  have c: "map_of (props payload) ''foo'' = None"
    using t [THEN conjunct2, THEN conjunct2, THEN conjunct2, THEN conjunct2, THEN spec,
             of "''foo''"]
    by simp
  have d: "map_of (props payload) ''model'' = Some (JStr ''m'')"
    using t [THEN conjunct2, THEN conjunct2, THEN conjunct2, THEN conjunct1, THEN spec,
             of "''model''"]
    by (simp add: base_props_def)
  let ?r2 = "(plain_request [])
          \<lparr> tools := JArr [JStr ''canonical''],
            tool_choice := JStr ''auto'',
            extra_body := JObj [(''tools'', JStr ''none'')] \<rparr>"
  obtain payload2 where h2: "buildChatCompletionCreateParams ?r2 False = Inr payload2"
    by (simp add: build_eval)
  have e2: "extra_body ?r2 = JObj [(''tools'', JStr ''none'')]"
    by simp
  note t2 = buildChatCompletionCreateParams_extra_body_tools [OF h2 e2]
  have a2: "map_of (props payload2) ''tools'' = Some (JArr [JStr ''canonical''])
     \<and> map_of (props payload2) ''tool_choice'' = Some (JStr ''auto'')"
    using t2 [THEN conjunct2, THEN conjunct2, THEN conjunct1] by simp
  have b2: "map_of (props payload2) ''extra_body'' = None"
    using t2 [THEN conjunct2, THEN conjunct1] by simp
  have first: "\<exists>payload.
     buildChatCompletionCreateParams ?r True = Inr payload
     \<and> map_of (props payload) ''tools'' = Some (JArr [JStr ''extension''])
     \<and> map_of (props payload) ''tool_choice'' = None
     \<and> map_of (props payload) ''extra_body'' =
         Some (JObj [(''foo'', JStr ''bar''), (''model'', JStr ''other'')])
     \<and> map_of (props payload) ''foo'' = None
     \<and> map_of (props payload) ''model'' = Some (JStr ''m'')"
    using h a b c d by (intro exI [of _ payload]) simp
  have second: "\<exists>payload.
     buildChatCompletionCreateParams ?r2 False = Inr payload
     \<and> map_of (props payload) ''tools'' = Some (JArr [JStr ''canonical''])
     \<and> map_of (props payload) ''tool_choice'' = Some (JStr ''auto'')
     \<and> map_of (props payload) ''extra_body'' = None"
    using h2 a2 b2 by (intro exI [of _ payload2]) simp
  show ?thesis
    by (rule conjI [OF first second])
qed

section \<open>Sampling parameters (C7)\<close>

text \<open>
  C7. Whenever \<^verbatim>\<open>buildChatCompletionCreateParams\<close> returns a payload, reading each of
  the seven sampling properties of the payload gives the value of the request's field of
  the same name. A field that is not set in the request (\<open>JUndefined\<close>) therefore reads
  \<^verbatim>\<open>undefined\<close> in the payload, never \<^verbatim>\<open>null\<close>; a property holding
  \<^verbatim>\<open>undefined\<close> is left out when the payload is serialised.
\<close>

theorem buildChatCompletionCreateParams_sampling:
  assumes "buildChatCompletionCreateParams request stream = Inr payload"
  shows "js_get (JObj (props payload)) ''temperature'' = temperature request
       \<and> js_get (JObj (props payload)) ''top_p'' = top_p request
       \<and> js_get (JObj (props payload)) ''frequency_penalty'' = frequency_penalty request
       \<and> js_get (JObj (props payload)) ''presence_penalty'' = presence_penalty request
       \<and> js_get (JObj (props payload)) ''max_tokens'' = max_tokens request
       \<and> js_get (JObj (props payload)) ''logit_bias'' = logit_bias request
       \<and> js_get (JObj (props payload)) ''prediction'' = prediction request"
proof -
  from assms obtain parsed where
    p: "props payload =
         props (attachVendorExtensions
           \<lparr> wire_messages = repair_tool_calls parsed,
             props = (if stream
                      then base_props request @
                        [(''stream'', JBool True),
                         (''stream_options'', JObj [(''include_usage'', JBool True)])]
                      else base_props request) \<rparr> request)"
    using build_Inr by blast
  show ?thesis
    by (simp add: p attach_other_keys base_props_def)
qed


theorem buildChatCompletionCreateParams_sampling_witness:
  "\<exists>payload.
     buildChatCompletionCreateParams
       ((plain_request []) \<lparr> temperature := JNum 1, max_tokens := JNum 256 \<rparr>) False
       = Inr payload
     \<and> js_get (JObj (props payload)) ''temperature'' = JNum 1
     \<and> js_get (JObj (props payload)) ''max_tokens'' = JNum 256
     \<and> js_get (JObj (props payload)) ''top_p'' = JUndefined
     \<and> js_get (JObj (props payload)) ''frequency_penalty'' = JUndefined
     \<and> js_get (JObj (props payload)) ''presence_penalty'' = JUndefined
     \<and> js_get (JObj (props payload)) ''logit_bias'' = JUndefined
     \<and> js_get (JObj (props payload)) ''prediction'' = JUndefined"
proof -
  let ?r = "(plain_request []) \<lparr> temperature := JNum 1, max_tokens := JNum 256 \<rparr>"
  obtain payload where h: "buildChatCompletionCreateParams ?r False = Inr payload"
    by (simp add: build_eval)
  from buildChatCompletionCreateParams_sampling [OF h]
  have "js_get (JObj (props payload)) ''temperature'' = JNum 1
     \<and> js_get (JObj (props payload)) ''max_tokens'' = JNum 256
     \<and> js_get (JObj (props payload)) ''top_p'' = JUndefined
     \<and> js_get (JObj (props payload)) ''frequency_penalty'' = JUndefined
     \<and> js_get (JObj (props payload)) ''presence_penalty'' = JUndefined
     \<and> js_get (JObj (props payload)) ''logit_bias'' = JUndefined
     \<and> js_get (JObj (props payload)) ''prediction'' = JUndefined"
    by simp
  with h show ?thesis by blast
qed

section \<open>Malformed messages (C8)\<close>

lemma parse_Inl:
  "(parseRequestMessage m = Inl e) =
     ((\<exists>ps tcs. m = AssistantMessage (ContentArray ps) tcs)
        \<and> e = Error ''Assistant message should be a string''
      \<or> (\<exists>ps. m = SystemMessage (ContentArray ps))
        \<and> e = Error ''System message should be a string'')"
  by (cases m rule: parseRequestMessage.cases) auto

lemma parse_fails:
  "(\<exists>e. parseRequestMessage m = Inl e) =
     ((\<exists>ps tcs. m = AssistantMessage (ContentArray ps) tcs)
      \<or> (\<exists>ps. m = SystemMessage (ContentArray ps)))"
  by (cases m rule: parseRequestMessage.cases) auto

lemma build_Inl:
  "(buildChatCompletionCreateParams request stream = Inl e) =
   (map_throwing parseRequestMessage (messages request) = Inl e)"
  by (simp add: buildChatCompletionCreateParams_def Let_def split: sum.splits)


text \<open>
  C8. \<^verbatim>\<open>buildChatCompletionCreateParams\<close> throws exactly when the request has an
  assistant message or a system message whose content is an array of content parts; what
  it throws is the \<^verbatim>\<open>Error\<close> of \<^verbatim>\<open>parseRequestMessage\<close> for such a message
  (lines 435 and 452). An assistant or system message with a string content is translated
  without an exception.
\<close>

theorem buildChatCompletionCreateParams_validation:
  "((\<exists>e. buildChatCompletionCreateParams request stream = Inl e) =
      (\<exists>m \<in> set (messages request).
          (\<exists>ps tcs. m = AssistantMessage (ContentArray ps) tcs)
          \<or> (\<exists>ps. m = SystemMessage (ContentArray ps))))
   \<and> (buildChatCompletionCreateParams request stream = Inl e \<longrightarrow>
        e = Error ''Assistant message should be a string''
        \<or> e = Error ''System message should be a string'')
   \<and> parseRequestMessage (AssistantMessage (ContentArray ps) tcs) =
        Inl (Error ''Assistant message should be a string'')
   \<and> parseRequestMessage (SystemMessage (ContentArray ps)) =
        Inl (Error ''System message should be a string'')
   \<and> (\<exists>w. parseRequestMessage (AssistantMessage (ContentString s) tcs) = Inr w)
   \<and> parseRequestMessage (SystemMessage (ContentString s)) = Inr (SystemParam s)"
proof -
  have a: "(\<exists>e. buildChatCompletionCreateParams request stream = Inl e) =
      (\<exists>m \<in> set (messages request).
          (\<exists>ps tcs. m = AssistantMessage (ContentArray ps) tcs)
          \<or> (\<exists>ps. m = SystemMessage (ContentArray ps)))"
    by (simp only: build_Inl map_throwing_Inl parse_fails)
  have b: "buildChatCompletionCreateParams request stream = Inl e \<longrightarrow>
        e = Error ''Assistant message should be a string''
        \<or> e = Error ''System message should be a string''"
  proof
    assume "buildChatCompletionCreateParams request stream = Inl e"
    then have "map_throwing parseRequestMessage (messages request) = Inl e"
      by (simp only: build_Inl)
    then obtain m where "parseRequestMessage m = Inl e"
      using map_throwing_Inl_error by blast
    then show "e = Error ''Assistant message should be a string''
        \<or> e = Error ''System message should be a string''"
      by (cases m rule: parseRequestMessage.cases) auto
  qed
  show ?thesis using a b by simp
qed

theorem buildChatCompletionCreateParams_validation_witness:
  "buildChatCompletionCreateParams
     (plain_request
        [UserMessage (ContentString ''hi''),
         AssistantMessage (ContentArray [TextPart ''x'']) None]) False
     = Inl (Error ''Assistant message should be a string'')
   \<and> buildChatCompletionCreateParams
     (plain_request [SystemMessage (ContentArray [TextPart ''x''])]) True
     = Inl (Error ''System message should be a string'')
   \<and> parseRequestMessage (AssistantMessage (ContentString ''a'') None)
     = Inr (AssistantParam ''a'' Undefined)
   \<and> parseRequestMessage (SystemMessage (ContentString ''s'')) = Inr (SystemParam ''s'')"
proof -
  let ?r1 = "plain_request
        [UserMessage (ContentString ''hi''),
         AssistantMessage (ContentArray [TextPart ''x'']) None]"
  let ?r2 = "plain_request [SystemMessage (ContentArray [TextPart ''x''])]"
  have "\<exists>e. buildChatCompletionCreateParams ?r1 False = Inl e"
    using buildChatCompletionCreateParams_validation [of ?r1 False] by simp
  then have a: "buildChatCompletionCreateParams ?r1 False
     = Inl (Error ''Assistant message should be a string'')"
    by (simp add: buildChatCompletionCreateParams_def)
  have "\<exists>e. buildChatCompletionCreateParams ?r2 True = Inl e"
    using buildChatCompletionCreateParams_validation [of ?r2 True] by simp
  then have b: "buildChatCompletionCreateParams ?r2 True
     = Inl (Error ''System message should be a string'')"
    by (simp add: buildChatCompletionCreateParams_def)
  show ?thesis using a b by simp
qed

section \<open>Default tool-call arguments (C10)\<close>

lemma filter_tool_calls_subset:
  "filter_tool_calls ids pm = AssistantParam c (Defined wtcs) \<Longrightarrow>
   \<exists>all. pm = AssistantParam c (Defined all) \<and> set wtcs \<subseteq> set all"
  by (cases "(ids, pm)" rule: filter_tool_calls.cases)
     (auto simp: Let_def split: if_splits)

lemma parse_AssistantParam:
  "parseRequestMessage m = Inr (AssistantParam c (Defined all)) \<Longrightarrow>
   \<exists>tcs. m = AssistantMessage (ContentString c) (Some tcs) \<and> all = map parseToolCall tcs"
  by (cases m rule: parseRequestMessage.cases) (auto split: option.splits)


text \<open>
  C10. An assistant message with a string content and a list of tool calls is translated to
  an assistant message carrying the translated calls, in order. A translated call has the
  \<^verbatim>\<open>id\<close> and the \<^verbatim>\<open>name\<close> of the request's call, the type \<^verbatim>\<open>"function"\<close>, and as
  arguments \<^verbatim>\<open>"{}"\<close> when the request's call has none (\<^verbatim>\<open>undefined\<close> or
  \<^verbatim>\<open>null\<close>), the request's string otherwise. Every tool call in a payload returned by
  \<^verbatim>\<open>buildChatCompletionCreateParams\<close> is such a translation of a call of an assistant
  message of the request.
\<close>

theorem parseRequestMessage_tool_call_arguments:
  "parseRequestMessage (AssistantMessage (ContentString s) (Some tcs)) =
     Inr (AssistantParam s (Defined (map parseToolCall tcs)))
   \<and> wtc_id (parseToolCall tc) = tc_id tc
   \<and> fn_name (wtc_function (parseToolCall tc)) = tc_name tc
   \<and> wtc_type (parseToolCall tc) = ''function''
   \<and> (tc_arguments tc = None \<longrightarrow> fn_arguments (wtc_function (parseToolCall tc)) = ''{}'')
   \<and> (tc_arguments tc = Some a \<longrightarrow> fn_arguments (wtc_function (parseToolCall tc)) = a)
   \<and> (buildChatCompletionCreateParams request stream = Inr payload
        \<and> AssistantParam c (Defined wtcs) \<in> set (wire_messages payload)
        \<and> w \<in> set wtcs \<longrightarrow>
        (\<exists>cs call. AssistantMessage (ContentString c) (Some cs) \<in> set (messages request)
           \<and> call \<in> set cs \<and> w = parseToolCall call))"
proof -
  have "\<exists>cs call. AssistantMessage (ContentString c) (Some cs) \<in> set (messages request)
           \<and> call \<in> set cs \<and> w = parseToolCall call"
    if h: "buildChatCompletionCreateParams request stream = Inr payload"
      and i: "AssistantParam c (Defined wtcs) \<in> set (wire_messages payload)"
      and j: "w \<in> set wtcs"
  proof -
    from h obtain parsed where
      p: "map_throwing parseRequestMessage (messages request) = Inr parsed"
      and wm: "wire_messages payload = repair_tool_calls parsed"
      using build_Inr by blast
    from p have l2: "list_all2 (\<lambda>x y. parseRequestMessage x = Inr y) (messages request) parsed"
      by (rule map_throwing_Inr)
    from i obtain pm where pm: "pm \<in> set parsed"
      "filter_tool_calls (tool_call_ids parsed) pm = AssistantParam c (Defined wtcs)"
      by (auto simp: wm repair_tool_calls_def Let_def)
    then obtain all where all: "pm = AssistantParam c (Defined all)" "set wtcs \<subseteq> set all"
      using filter_tool_calls_subset by blast
    from pm(1) obtain k where k: "k < length parsed" "parsed ! k = pm"
      by (auto simp: in_set_conv_nth)
    with l2 have km: "k < length (messages request)"
      "parseRequestMessage (messages request ! k) = Inr pm"
      by (auto simp: list_all2_conv_all_nth)
    then obtain cs where cs: "messages request ! k = AssistantMessage (ContentString c) (Some cs)"
      "all = map parseToolCall cs"
      using parse_AssistantParam all(1) by blast
    from j all(2) cs(2) obtain call where "call \<in> set cs" "w = parseToolCall call"
      by auto
    moreover have "AssistantMessage (ContentString c) (Some cs) \<in> set (messages request)"
      using km(1) cs(1) nth_mem by metis
    ultimately show ?thesis by blast
  qed
  then show ?thesis
    by (simp add: parseToolCall_def)
qed


theorem parseRequestMessage_tool_call_arguments_witness:
  "parseRequestMessage
     (AssistantMessage (ContentString ''a'')
        (Some [\<lparr> tc_id = ''call_1'', tc_name = ''f'', tc_arguments = None \<rparr>,
               \<lparr> tc_id = ''call_2'', tc_name = ''g'', tc_arguments = Some ''{\"x\":1}'' \<rparr>]))
   = Inr (AssistantParam ''a''
       (Defined
          [\<lparr> wtc_id = ''call_1'',
             wtc_function = \<lparr> fn_arguments = ''{}'', fn_name = ''f'' \<rparr>,
             wtc_type = ''function'' \<rparr>,
           \<lparr> wtc_id = ''call_2'',
             wtc_function = \<lparr> fn_arguments = ''{\"x\":1}'', fn_name = ''g'' \<rparr>,
             wtc_type = ''function'' \<rparr>]))
   \<and> fn_arguments (wtc_function
        (parseToolCall \<lparr> tc_id = ''call_1'', tc_name = ''f'', tc_arguments = None \<rparr>)) = ''{}''
   \<and> fn_arguments (wtc_function
        (parseToolCall \<lparr> tc_id = ''call_2'', tc_name = ''g'', tc_arguments = Some ''{\"x\":1}'' \<rparr>))
       = ''{\"x\":1}''"
  using
    parseRequestMessage_tool_call_arguments
      [where s = "''a''"
         and tcs = "[\<lparr> tc_id = ''call_1'', tc_name = ''f'', tc_arguments = None \<rparr>,
               \<lparr> tc_id = ''call_2'', tc_name = ''g'', tc_arguments = Some ''{\"x\":1}'' \<rparr>]"
         and tc = "\<lparr> tc_id = ''call_1'', tc_name = ''f'', tc_arguments = None \<rparr>"]
    parseRequestMessage_tool_call_arguments
      [where tc = "\<lparr> tc_id = ''call_2'', tc_name = ''g'', tc_arguments = Some ''{\"x\":1}'' \<rparr>"
         and a = "''{\"x\":1}''"]
  by (simp add: parseToolCall_def)

section \<open>Streaming fragments: finish reason (C9)\<close>

lemma parseStreamingChoice_Inl:
  "(parseStreamingChoice choice = Inl e) =
     ((chunk_delta choice = JNull \<or> chunk_delta choice = JUndefined) \<and> e = TypeError)"
  by (auto simp: parseStreamingChoice_def)

lemma parseStreamingChoice_throws:
  "(\<exists>e. parseStreamingChoice choice = Inl e) =
     (chunk_delta choice = JNull \<or> chunk_delta choice = JUndefined)"
  by (auto simp: parseStreamingChoice_def)

lemma parseStreamingChoice_finish_reason:
  "parseStreamingChoice choice = Inr c \<Longrightarrow>
   finish_reason c =
     (if chunk_finish_reason choice = JNull \<or> chunk_finish_reason choice = JUndefined
      then JNull else chunk_finish_reason choice)"
  by (auto simp: parseStreamingChoice_def nullish_coalesce_def split: if_splits)

lemma parseStreamingResponseChunk_Inr:
  "parseStreamingResponseChunk chunk = Inr response \<Longrightarrow>
   map_throwing parseStreamingChoice (chunk_choices chunk) = Inr (choices response)"
  by (auto simp: parseStreamingResponseChunk_def split: sum.splits)

lemma parseStreamingResponseChunk_Inl:
  "(parseStreamingResponseChunk chunk = Inl e) =
   (map_throwing parseStreamingChoice (chunk_choices chunk) = Inl e)"
  by (simp add: parseStreamingResponseChunk_def split: sum.splits)

lemma parseStreamingResponseChunk_returns:
  "(\<exists>response. parseStreamingResponseChunk chunk = Inr response) =
   (\<forall>e. parseStreamingResponseChunk chunk \<noteq> Inl e)"
  by (cases "parseStreamingResponseChunk chunk") auto

text \<open>
  The claim C9 as worded does not hold for every wire chunk: a choice whose
  \<^verbatim>\<open>finish_reason\<close> is \<^verbatim>\<open>null\<close> and whose \<^verbatim>\<open>delta\<close> is missing makes line 502 throw
  a \<^verbatim>\<open>TypeError\<close>, and no fragment is returned.
\<close>

theorem parseStreamingResponseChunk_delta_counterexample:
  "parseStreamingResponseChunk
     \<lparr> chunk_id = ''c1'',
       chunk_choices = [\<lparr> chunk_finish_reason = JNull, chunk_delta = JUndefined \<rparr>],
       chunk_created = JNum 0, chunk_model = ''m'',
       chunk_system_fingerprint = JUndefined, chunk_usage = JNull \<rparr>
   = Inl TypeError"
  by (simp add: parseStreamingResponseChunk_def parseStreamingChoice_def)

text \<open>
  C9, amended. \<^verbatim>\<open>parseStreamingResponseChunk\<close> returns a fragment exactly when no choice
  of the chunk has a \<^verbatim>\<open>delta\<close> that is \<^verbatim>\<open>null\<close> or \<^verbatim>\<open>undefined\<close>; otherwise it
  throws a \<^verbatim>\<open>TypeError\<close>. A returned fragment has one choice per choice of the chunk; a
  choice whose \<^verbatim>\<open>finish_reason\<close> is \<^verbatim>\<open>null\<close> or \<^verbatim>\<open>undefined\<close> (absent) gives a
  choice whose \<^verbatim>\<open>finish_reason\<close> is \<^verbatim>\<open>null\<close>; any other value is kept; so no choice
  of a returned fragment has an \<^verbatim>\<open>undefined\<close> finish reason.
\<close>

theorem parseStreamingResponseChunk_finish_reason:
  "((\<exists>response. parseStreamingResponseChunk chunk = Inr response) =
      (\<forall>c \<in> set (chunk_choices chunk). chunk_delta c \<noteq> JNull \<and> chunk_delta c \<noteq> JUndefined))
   \<and> (parseStreamingResponseChunk chunk = Inl e \<longrightarrow> e = TypeError)
   \<and> (parseStreamingResponseChunk chunk = Inr response \<longrightarrow>
        length (choices response) = length (chunk_choices chunk)
        \<and> (\<forall>i < length (chunk_choices chunk).
              (chunk_finish_reason (chunk_choices chunk ! i) = JNull
                 \<or> chunk_finish_reason (chunk_choices chunk ! i) = JUndefined \<longrightarrow>
               finish_reason (choices response ! i) = JNull)
              \<and> (chunk_finish_reason (chunk_choices chunk ! i) \<noteq> JNull
                 \<and> chunk_finish_reason (chunk_choices chunk ! i) \<noteq> JUndefined \<longrightarrow>
               finish_reason (choices response ! i) =
                 chunk_finish_reason (chunk_choices chunk ! i)))
        \<and> (\<forall>c \<in> set (choices response). finish_reason c \<noteq> JUndefined))"
proof -
  have a: "(\<exists>response. parseStreamingResponseChunk chunk = Inr response) =
      (\<forall>c \<in> set (chunk_choices chunk). chunk_delta c \<noteq> JNull \<and> chunk_delta c \<noteq> JUndefined)"
  proof -
    have "(\<exists>e. parseStreamingResponseChunk chunk = Inl e) =
        (\<exists>c \<in> set (chunk_choices chunk). chunk_delta c = JNull \<or> chunk_delta c = JUndefined)"
      by (simp only: parseStreamingResponseChunk_Inl map_throwing_Inl parseStreamingChoice_throws)
    then show ?thesis
      unfolding parseStreamingResponseChunk_returns by auto
  qed
  have b: "parseStreamingResponseChunk chunk = Inl e \<longrightarrow> e = TypeError"
  proof
    assume "parseStreamingResponseChunk chunk = Inl e"
    then have "map_throwing parseStreamingChoice (chunk_choices chunk) = Inl e"
      by (simp only: parseStreamingResponseChunk_Inl)
    then obtain c where "parseStreamingChoice c = Inl e"
      using map_throwing_Inl_error by blast
    then show "e = TypeError"
      by (simp add: parseStreamingChoice_Inl)
  qed
  have c: "parseStreamingResponseChunk chunk = Inr response \<longrightarrow>
        length (choices response) = length (chunk_choices chunk)
        \<and> (\<forall>i < length (chunk_choices chunk).
              (chunk_finish_reason (chunk_choices chunk ! i) = JNull
                 \<or> chunk_finish_reason (chunk_choices chunk ! i) = JUndefined \<longrightarrow>
               finish_reason (choices response ! i) = JNull)
              \<and> (chunk_finish_reason (chunk_choices chunk ! i) \<noteq> JNull
                 \<and> chunk_finish_reason (chunk_choices chunk ! i) \<noteq> JUndefined \<longrightarrow>
               finish_reason (choices response ! i) =
                 chunk_finish_reason (chunk_choices chunk ! i)))
        \<and> (\<forall>c \<in> set (choices response). finish_reason c \<noteq> JUndefined)"
  proof
    assume "parseStreamingResponseChunk chunk = Inr response"
    then have "map_throwing parseStreamingChoice (chunk_choices chunk) = Inr (choices response)"
      by (rule parseStreamingResponseChunk_Inr)
    then have l2: "list_all2 (\<lambda>x y. parseStreamingChoice x = Inr y)
        (chunk_choices chunk) (choices response)"
      by (rule map_throwing_Inr)
    then have len: "length (choices response) = length (chunk_choices chunk)"
      by (simp add: list_all2_lengthD)
    have nth: "\<And>i. i < length (chunk_choices chunk) \<Longrightarrow>
        finish_reason (choices response ! i) =
          (if chunk_finish_reason (chunk_choices chunk ! i) = JNull
              \<or> chunk_finish_reason (chunk_choices chunk ! i) = JUndefined
           then JNull else chunk_finish_reason (chunk_choices chunk ! i))"
      using l2 by (simp add: list_all2_conv_all_nth parseStreamingChoice_finish_reason)
    have all: "\<forall>c \<in> set (choices response). finish_reason c \<noteq> JUndefined"
    proof
      fix c
      assume "c \<in> set (choices response)"
      then obtain i where i: "i < length (choices response)" "choices response ! i = c"
        by (auto simp: in_set_conv_nth)
      then show "finish_reason c \<noteq> JUndefined"
        using nth [of i] len by (auto split: if_splits)
    qed
    show "length (choices response) = length (chunk_choices chunk)
        \<and> (\<forall>i < length (chunk_choices chunk).
              (chunk_finish_reason (chunk_choices chunk ! i) = JNull
                 \<or> chunk_finish_reason (chunk_choices chunk ! i) = JUndefined \<longrightarrow>
               finish_reason (choices response ! i) = JNull)
              \<and> (chunk_finish_reason (chunk_choices chunk ! i) \<noteq> JNull
                 \<and> chunk_finish_reason (chunk_choices chunk ! i) \<noteq> JUndefined \<longrightarrow>
               finish_reason (choices response ! i) =
                 chunk_finish_reason (chunk_choices chunk ! i)))
        \<and> (\<forall>c \<in> set (choices response). finish_reason c \<noteq> JUndefined)"
      using len nth all by simp
  qed
  show ?thesis
    by (rule conjI [OF a conjI [OF b c]])
qed

theorem parseStreamingResponseChunk_finish_reason_witness:
  "(\<exists>response.
      parseStreamingResponseChunk
        \<lparr> chunk_id = ''c1'',
          chunk_choices =
            [\<lparr> chunk_finish_reason = JNull, chunk_delta = JObj [(''content'', JStr ''Hel'')] \<rparr>,
             \<lparr> chunk_finish_reason = JUndefined, chunk_delta = JObj [] \<rparr>,
             \<lparr> chunk_finish_reason = JStr ''stop'', chunk_delta = JObj [] \<rparr>],
          chunk_created = JNum 0, chunk_model = ''m'',
          chunk_system_fingerprint = JUndefined, chunk_usage = JNull \<rparr> = Inr response
      \<and> length (choices response) = 3
      \<and> finish_reason (choices response ! 0) = JNull
      \<and> finish_reason (choices response ! 1) = JNull
      \<and> finish_reason (choices response ! 2) = JStr ''stop'')
   \<and> parseStreamingResponseChunk
        \<lparr> chunk_id = ''c2'',
          chunk_choices = [\<lparr> chunk_finish_reason = JNull, chunk_delta = JNull \<rparr>],
          chunk_created = JNum 0, chunk_model = ''m'',
          chunk_system_fingerprint = JUndefined, chunk_usage = JNull \<rparr> = Inl TypeError"
proof -
  let ?chunk = "\<lparr> chunk_id = ''c1'',
          chunk_choices =
            [\<lparr> chunk_finish_reason = JNull, chunk_delta = JObj [(''content'', JStr ''Hel'')] \<rparr>,
             \<lparr> chunk_finish_reason = JUndefined, chunk_delta = JObj [] \<rparr>,
             \<lparr> chunk_finish_reason = JStr ''stop'', chunk_delta = JObj [] \<rparr>],
          chunk_created = JNum 0, chunk_model = ''m'',
          chunk_system_fingerprint = JUndefined, chunk_usage = JNull \<rparr>"
  let ?bad = "\<lparr> chunk_id = ''c2'',
          chunk_choices = [\<lparr> chunk_finish_reason = JNull, chunk_delta = JNull \<rparr>],
          chunk_created = JNum 0, chunk_model = ''m'',
          chunk_system_fingerprint = JUndefined, chunk_usage = JNull \<rparr>"
  have "\<exists>response. parseStreamingResponseChunk ?chunk = Inr response"
    using parseStreamingResponseChunk_finish_reason [of ?chunk, THEN conjunct1] by simp
  then obtain response where h: "parseStreamingResponseChunk ?chunk = Inr response" ..
  note t = parseStreamingResponseChunk_finish_reason
             [of ?chunk _ response, THEN conjunct2, THEN conjunct2, THEN mp, OF h]
  have l: "length (choices response) = 3"
    using t [THEN conjunct1] by simp
  have f0: "finish_reason (choices response ! 0) = JNull"
    using t [THEN conjunct2, THEN conjunct1, THEN spec, of 0] by simp
  have f1: "finish_reason (choices response ! 1) = JNull"
    using t [THEN conjunct2, THEN conjunct1, THEN spec, of 1] by simp
  have f2: "finish_reason (choices response ! 2) = JStr ''stop''"
    using t [THEN conjunct2, THEN conjunct1, THEN spec, of 2] by simp
  have first: "\<exists>response.
      parseStreamingResponseChunk ?chunk = Inr response
      \<and> length (choices response) = 3
      \<and> finish_reason (choices response ! 0) = JNull
      \<and> finish_reason (choices response ! 1) = JNull
      \<and> finish_reason (choices response ! 2) = JStr ''stop''"
    using h l f0 f1 f2 by (intro exI [of _ response]) simp
  have "\<not> (\<exists>response. parseStreamingResponseChunk ?bad = Inr response)"
    using parseStreamingResponseChunk_finish_reason [of ?bad, THEN conjunct1] by simp
  then obtain e where e: "parseStreamingResponseChunk ?bad = Inl e"
    by (cases "parseStreamingResponseChunk ?bad") auto
  with parseStreamingResponseChunk_finish_reason [of ?bad e, THEN conjunct2, THEN conjunct1]
  have second: "parseStreamingResponseChunk ?bad = Inl TypeError"
    by simp
  show ?thesis
    by (rule conjI [OF first second])
qed

section \<open>The coordinator: calls during a construction (C1, C3)\<close>

lemmas coordinator_eval =
  getMcpManager_def initialize_settles_def outcome_def new_runtime_def new_coordinator_def
  Let_def


text \<open>
  What holds of \<^verbatim>\<open>getMcpManager\<close> in every state: a call changes nothing, and so starts
  no construction, unless both fields are \<^verbatim>\<open>null\<close>; when a pending
  \<^verbatim>\<open>initialize()\<close> rejects, both fields are \<^verbatim>\<open>null\<close> again in the step that
  rejects the promise of the construction; and from any state with both fields
  \<^verbatim>\<open>null\<close>, the call that starts a construction returns its pending promise, while any
  call after it returns the manager just stored.
\<close>

lemma getMcpManager_no_second_construction:
  "mcpManager (coordinator rt) \<noteq> None \<or> mcpManagerInitPromise (coordinator rt) \<noteq> None
   \<Longrightarrow> snd (getMcpManager c rt) = rt"
  by (auto simp: getMcpManager_def split: option.splits)

lemma getMcpManager_constructions:
  "constructions (snd (getMcpManager c rt)) =
     (if mcpManager (coordinator rt) = None \<and> mcpManagerInitPromise (coordinator rt) = None
      then Suc (constructions rt) else constructions rt)"
  by (auto simp: getMcpManager_def Let_def split: option.splits construction.splits)

lemma getMcpManager_second_call_in_flight:
  assumes "mcpManager (coordinator rt) = None"
    and "mcpManagerInitPromise (coordinator rt) = None"
  shows "fst (getMcpManager InitializePending rt) = ReturnsPromise (length (promises rt))
       \<and> outcome (snd (getMcpManager InitializePending rt))
            (ReturnsPromise (length (promises rt))) = Pending
       \<and> getMcpManager c (snd (getMcpManager InitializePending rt)) =
            (ReturnsManager (constructions rt), snd (getMcpManager InitializePending rt))"
  using assms by (simp add: getMcpManager_def outcome_def Let_def)

lemma initialize_rejects_resets:
  "map_of (awaiting rt) m = Some p \<Longrightarrow>
   coordinator (initialize_settles m (Some e) rt) = new_coordinator"
  by (simp add: initialize_settles_def new_coordinator_def)

text \<open>
  When the constructor throws synchronously, the \<^verbatim>\<open>catch\<close> block has already run when
  line 55 stores the rejected promise: later calls return that promise and no construction
  is started again.
\<close>

lemma getMcpManager_constructor_throw_cached:
  "(let (r1, s1) = getMcpManager (ConstructorThrows (Error ''constructor failed'')) new_runtime;
        (r2, s2) = getMcpManager InitializePending s1
    in r1 = ReturnsPromise 0
       \<and> coordinator s1 = \<lparr> mcpManager = None, mcpManagerInitPromise = Some 0 \<rparr>
       \<and> r2 = ReturnsPromise 0
       \<and> outcome s2 r2 = Rejected (Error ''constructor failed'')
       \<and> constructions s2 = 1)"
  by (simp add: coordinator_eval)


text \<open>
  C1 does not hold of the code. Line 60 stores the new manager in \<^verbatim>\<open>this.mcpManager\<close>
  before \<^verbatim>\<open>initialize()\<close> is awaited (the sibling \<^verbatim>\<open>getDbManager\<close> stores its manager
  only after the awaited creation). So on a new coordinator the first call returns the
  pending promise 0, and a second call made while that promise is pending takes the branch
  of line 44 and returns manager 0 itself, not the promise. No second construction starts.
  When \<^verbatim>\<open>initialize()\<close> then rejects, the first caller's promise is rejected and the second
  caller's is fulfilled with manager 0: two callers of one construction attempt observe
  different outcomes.
\<close>

theorem getMcpManager_in_flight_returns_manager:
  "(let (r1, s1) = getMcpManager InitializePending new_runtime;
        (r2, s2) = getMcpManager InitializePending s1;
        s3 = initialize_settles 0 (Some (Error ''initialize failed'')) s2
    in r1 = ReturnsPromise 0
       \<and> outcome s1 r1 = Pending
       \<and> coordinator s1 = \<lparr> mcpManager = Some 0, mcpManagerInitPromise = Some 0 \<rparr>
       \<and> r2 = ReturnsManager 0
       \<and> constructions s2 = 1
       \<and> outcome s3 r1 = Rejected (Error ''initialize failed'')
       \<and> outcome s3 r2 = Fulfilled (Some 0))"
  by (simp add: coordinator_eval)


text \<open>
  C3 does not hold of the code, by the same defect. In the trace above manager 0 is handed to
  the second caller although its \<^verbatim>\<open>initialize()\<close> has not completed, and it never
  completes: the caller holds a partially constructed instance. The rest of C3 holds in this
  trace: after the rejection both fields are \<^verbatim>\<open>null\<close>, and the next call starts a fresh
  construction (manager 1, promise 1).
\<close>

theorem getMcpManager_failure_exposes_manager:
  "(let (r1, s1) = getMcpManager InitializePending new_runtime;
        (r2, s2) = getMcpManager InitializePending s1;
        s3 = initialize_settles 0 (Some (Error ''initialize failed'')) s2;
        (r3, s4) = getMcpManager InitializePending s3
    in r2 = ReturnsManager 0
       \<and> 0 \<notin> set (initialized s2)
       \<and> coordinator s3 = new_coordinator
       \<and> outcome s3 r1 = Rejected (Error ''initialize failed'')
       \<and> outcome s3 r2 = Fulfilled (Some 0)
       \<and> 0 \<notin> set (initialized s3)
       \<and> r3 = ReturnsPromise 1
       \<and> coordinator s4 = \<lparr> mcpManager = Some 1, mcpManagerInitPromise = Some 1 \<rparr>
       \<and> constructions s4 = 2)"
  by (simp add: coordinator_eval)


section \<open>The coordinator: cleanup (C4)\<close>

text \<open>
  The claim C4 as worded does not hold: when \<^verbatim>\<open>McpManager.cleanup()\<close> throws, the exception
  leaves \<^verbatim>\<open>cleanup\<close> at line 109 and the assignments of lines 111 and 112 are not
  reached; the coordinator still holds its manager and its promise.
\<close>

theorem cleanup_teardown_throws_counterexample:
  "cleanup (\<lambda>m. Some (Error ''teardown failed''))
     \<lparr> mcpManager = Some 0, mcpManagerInitPromise = Some 0 \<rparr>
   = (Some (Error ''teardown failed''),
      \<lparr> mcpManager = Some 0, mcpManagerInitPromise = Some 0 \<rparr>)"
  by (simp add: cleanup_def)


text \<open>
  C4, amended. In every state of the coordinator in which there is no stored manager or the
  stored manager's teardown returns normally, \<^verbatim>\<open>cleanup\<close> returns normally and leaves
  both fields \<^verbatim>\<open>null\<close>, and so does a second call after it. On a coordinator on which
  \<^verbatim>\<open>getMcpManager\<close> was never called it returns normally whatever the teardown would do,
  and leaves both fields \<^verbatim>\<open>null\<close>. When the stored manager's teardown throws,
  \<^verbatim>\<open>cleanup\<close> throws the same exception and both fields keep their values.
\<close>

theorem cleanup_clears_coordinator:
  "((\<forall>m. mcpManager c = Some m \<longrightarrow> teardown m = None) \<longrightarrow>
      cleanup teardown c = (None, new_coordinator)
      \<and> cleanup teardown (snd (cleanup teardown c)) = (None, new_coordinator))
   \<and> cleanup teardown new_coordinator = (None, new_coordinator)
   \<and> (mcpManager c = Some m \<and> teardown m = Some e \<longrightarrow> cleanup teardown c = (Some e, c))"
  by (auto simp: cleanup_def new_coordinator_def split: option.splits)


theorem cleanup_clears_coordinator_witness:
  "cleanup (\<lambda>m. None) \<lparr> mcpManager = Some 0, mcpManagerInitPromise = Some 0 \<rparr>
     = (None, \<lparr> mcpManager = None, mcpManagerInitPromise = None \<rparr>)
   \<and> cleanup (\<lambda>m. None) \<lparr> mcpManager = None, mcpManagerInitPromise = Some 0 \<rparr>
     = (None, \<lparr> mcpManager = None, mcpManagerInitPromise = None \<rparr>)
   \<and> cleanup (\<lambda>m. Some (Error ''teardown failed''))
        \<lparr> mcpManager = Some 0, mcpManagerInitPromise = Some 0 \<rparr>
     = (Some (Error ''teardown failed''),
        \<lparr> mcpManager = Some 0, mcpManagerInitPromise = Some 0 \<rparr>)"
  using
    cleanup_clears_coordinator
      [of "\<lparr> mcpManager = Some 0, mcpManagerInitPromise = Some 0 \<rparr>" "\<lambda>m. None"]
    cleanup_clears_coordinator
      [of "\<lparr> mcpManager = None, mcpManagerInitPromise = Some 0 \<rparr>" "\<lambda>m. None"]
    cleanup_clears_coordinator
      [of "\<lparr> mcpManager = Some 0, mcpManagerInitPromise = Some 0 \<rparr>"
          "\<lambda>m. Some (Error ''teardown failed'')" 0 "Error ''teardown failed''"]
  by (simp add: new_coordinator_def)

end
